theory Spec2Isabelle
  imports Complex_Main "HOL-Library.Char_ord" "HOL-Library.List_Lexorder"
begin

section \<open>Data model\<close>

text \<open>
  The pipeline of \<^verbatim>\<open>etl_pipeline.py\<close> works on three pandas frames with the columns written
  by \<^verbatim>\<open>generer_donnees_test\<close>. A frame is a list of rows and a row is a record with one field
  per column. A cell that pandas reads as NaN/None/NaT is \<open>None\<close>. Numeric columns hold
  \<open>real\<close> numbers: the code only compares them with constants and sorts them; the one
  arithmetic operation, the mean of the two middle values of a median, is exact here and
  rounded in the program, and nothing below depends on its exact value.
\<close>

datatype erreur = KeyError string | ValueError string | TypeError string | IOError string

text \<open>A timestamp cell: the text read from the raw file, or the value \<^verbatim>\<open>pd.to_datetime\<close> made of it.\<close>

datatype horodatage = Texte string | Instant int

record transaction =
  transaction_id :: "string option"
  client_id :: "string option"
  montant :: "real option"
  devise :: "string option"
  date_heure :: "horodatage option"
  type_transaction :: "string option"
  type_carte :: "string option"
  merchant_id :: "string option"
  merchant_category :: "string option"
  pays :: "string option"
  ville :: "string option"
  latitude :: "real option"
  longitude :: "real option"
  canal :: "string option"
  is_fraud :: "bool option"

text \<open>A client row is its key \<^verbatim>\<open>client_id\<close> and the eight other columns of \<^verbatim>\<open>clients.xlsx\<close>.\<close>

record attributs_client =
  age :: "int option"
  sexe :: "string option"
  code_postal :: "string option"
  anciennete_mois :: "int option"
  nb_produits :: "int option"
  revenu_annuel_tranche :: "string option"
  score_credit :: "real option"
  date_derniere_fraude :: "horodatage option"

record client = attributs_client +
  client_id_c :: "string option"

record log_comportement =
  session_id :: "string option"
  client_id_l :: "string option"
  timestamp :: "horodatage option"
  action :: "string option"
  device_type :: "string option"
  os :: "string option"
  browser :: "string option"
  ip_address :: "string option"
  duree_session_sec :: "real option"

text \<open>The table \<^verbatim>\<open>logs_agg\<close> built by \<^verbatim>\<open>groupby('client_id').agg(...)\<close>.\<close>

record features_logs =
  client_id_f :: "string"
  nb_sessions_f :: "nat"
  duree_moy_f :: "real option"

text \<open>A row after the first join is the transaction columns, then the client columns other
  than the join key; a row of \<^verbatim>\<open>dataset_final\<close> has the two features after them.\<close>

record transaction_client = transaction +
  attributs :: "attributs_client"

record dataset_final = transaction_client +
  nb_sessions :: "real option"
  duree_moy_session_sec :: "real option"

section \<open>Series operations of pandas\<close>

definition isna :: "'a option \<Rightarrow> bool" where
  "isna x = (x = None)"

text \<open>\<^verbatim>\<open>df[col].isna().sum()\<close>\<close>

definition compter_na :: "'a option list \<Rightarrow> nat" where
  "compter_na col = length (filter isna col)"

definition valeurs :: "'a option list \<Rightarrow> 'a list" where
  "valeurs col = map the (filter (\<lambda>x. \<not> isna x) col)"

text \<open>\<^verbatim>\<open>Series.fillna(v)\<close> on one cell; filling with NaN leaves a missing cell missing.\<close>

definition fillna :: "'a option \<Rightarrow> 'a option \<Rightarrow> 'a option" where
  "fillna v x = (case x of None \<Rightarrow> v | Some y \<Rightarrow> Some y)"

text \<open>\<^verbatim>\<open>Series.median()\<close>: missing cells are skipped; NaN when no value is left.\<close>

definition mediane :: "real option list \<Rightarrow> real option" where
  "mediane col =
    (let vs = sort (valeurs col); n = length vs in
     if n = 0 then None
     else if odd n then Some (vs ! (n div 2))
     else Some ((vs ! (n div 2 - 1) + vs ! (n div 2)) / 2))"

text \<open>\<^verbatim>\<open>Series.mode()\<close>: the non-missing values of highest count, sorted in ascending order.\<close>

definition mode_serie :: "string option list \<Rightarrow> string list" where
  "mode_serie col =
    (let vs = valeurs col;
         m = fold max (map (count_list vs) vs) 0
     in sort (remdups (filter (\<lambda>v. count_list vs v = m) vs)))"

text \<open>\<^verbatim>\<open>drop_duplicates(subset=..., keep='first')\<close>: a row is kept when its key was not seen
  before; two missing keys count as equal.\<close>

fun drop_vus :: "('r \<Rightarrow> 'k) \<Rightarrow> 'k list \<Rightarrow> 'r list \<Rightarrow> 'r list" where
  "drop_vus cle vus [] = []"
| "drop_vus cle vus (x # xs) =
    (if cle x \<in> set vus then drop_vus cle vus xs
     else x # drop_vus cle (cle x # vus) xs)"

definition drop_duplicates :: "('r \<Rightarrow> 'k) \<Rightarrow> 'r list \<Rightarrow> 'r list" where
  "drop_duplicates cle xs = drop_vus cle [] xs"

text \<open>\<^verbatim>\<open>pd.to_datetime\<close> on one cell and on a column. The parser of pandas is a parameter
  \<open>parse\<close>; \<open>None\<close> is a text it rejects, which raises \<^verbatim>\<open>ValueError\<close>. A cell that is already
  a datetime is kept, and a missing cell becomes NaT.\<close>

definition convertir_cellule ::
  "(string \<Rightarrow> int option) \<Rightarrow> horodatage option \<Rightarrow> erreur + horodatage option" where
  "convertir_cellule parse x =
    (case x of
       None \<Rightarrow> Inr None
     | Some (Instant i) \<Rightarrow> Inr (Some (Instant i))
     | Some (Texte s) \<Rightarrow>
         (case parse s of None \<Rightarrow> Inl (ValueError s) | Some i \<Rightarrow> Inr (Some (Instant i))))"

fun to_datetime ::
  "(string \<Rightarrow> int option) \<Rightarrow> horodatage option list \<Rightarrow> erreur + horodatage option list" where
  "to_datetime parse [] = Inr []"
| "to_datetime parse (x # xs) =
    (case convertir_cellule parse x of
       Inl e \<Rightarrow> Inl e
     | Inr y \<Rightarrow> (case to_datetime parse xs of Inl e \<Rightarrow> Inl e | Inr ys \<Rightarrow> Inr (y # ys)))"

section \<open>The Generator\<close>

text \<open>
  The Generator draws from two process-wide random sources, the module \<^verbatim>\<open>random\<close> and the
  generator of Faker, both seeded with 42 when the module is imported (lines 20-23), and
  it asks Faker for dates relative to the present time (lines 76-79, 119-122, 138-141). The
  library functions are parameters: each takes the state of its source and returns the
  value drawn and the next state, and the date functions take the reading of the clock.
  The seeded sources are the state a run starts from.
\<close>

record ('g, 'f) bibliotheque =
  random_random :: "'g \<Rightarrow> real \<times> 'g"
  random_uniform :: "real \<Rightarrow> real \<Rightarrow> 'g \<Rightarrow> real \<times> 'g"
  random_randint :: "int \<Rightarrow> int \<Rightarrow> 'g \<Rightarrow> int \<times> 'g"
  random_indice :: "nat \<Rightarrow> 'g \<Rightarrow> nat \<times> 'g"
  arrondi :: "nat \<Rightarrow> real \<Rightarrow> real"
  fake_city :: "'f \<Rightarrow> string \<times> 'f"
  fake_postcode :: "'f \<Rightarrow> string \<times> 'f"
  fake_ipv4 :: "'f \<Rightarrow> string \<times> 'f"
  fake_date_time_between :: "int \<Rightarrow> 'f \<Rightarrow> string \<times> 'f"
  fake_date_between :: "int \<Rightarrow> 'f \<Rightarrow> string \<times> 'f"

text \<open>\<^verbatim>\<open>random.choice(xs)\<close>\<close>

definition random_choice :: "('g, 'f) bibliotheque \<Rightarrow> 'a list \<Rightarrow> 'g \<Rightarrow> 'a \<times> 'g" where
  "random_choice B xs g = (let (k, g') = random_indice B (length xs) g in (xs ! k, g'))"

text \<open>The format \<^verbatim>\<open>{n:0wd}\<close> of a number that is not negative.\<close>

fun chiffres :: "nat \<Rightarrow> string" where
  "chiffres n =
    (if n < 10 then [''0123456789'' ! n]
     else chiffres (n div 10) @ [''0123456789'' ! (n mod 10)])"

declare chiffres.simps [simp del]

definition format_0d :: "nat \<Rightarrow> nat \<Rightarrow> string" where
  "format_0d w n = replicate (w - length (chiffres n)) CHR ''0'' @ chiffres n"

text \<open>Lines 58-91, one turn of the loop.\<close>

definition generer_transaction ::
  "('g, 'f) bibliotheque \<Rightarrow> int \<Rightarrow> nat \<Rightarrow> 'g \<times> 'f \<Rightarrow> transaction \<times> 'g \<times> 'f" where
  "generer_transaction B maintenant i s =
    (let (g0, f0) = s;
         (u, g1) = random_random B g0;
         fraude = (u < 0.0025);
         (montant_brut, g2) =
           (if \<not> fraude then random_uniform B 5 2000 g1 else random_uniform B 500 5000 g1);
         (v, g3) = random_random B g2;
         (la_ville, f1) =
           (if v > 0.03 then (let (c, f) = fake_city B f0 in (Some c, f)) else (None, f0));
         (merchant_cat, g4) =
           random_choice B [Some ''SUPERMARCHE'', Some ''RESTAURANT'', Some ''ESSENCE'',
                            Some ''VETEMENTS'', Some ''PHARMACIE'', Some ''LOISIRS'', None] g3;
         (num_client, g5) = random_randint B 1 5000 g4;
         (quand, f2) = fake_date_time_between B maintenant f1;
         (le_type, g6) = random_choice B [''PAIEMENT'', ''RETRAIT'', ''VIREMENT''] g5;
         (la_carte, g7) = random_choice B [''DEBIT'', ''CREDIT'', ''PREPAYEE''] g6;
         (num_marchand, g8) = random_randint B 1 500 g7;
         ville_presente = (la_ville \<noteq> None \<and> la_ville \<noteq> Some []);
         (lat, g9) =
           (if ville_presente
            then (let (x, g) = random_uniform B 42 51 g8 in (Some (arrondi B 6 x), g))
            else (None, g8));
         (lon, g10) =
           (if ville_presente
            then (let (x, g) = random_uniform B (- 4) 8 g9 in (Some (arrondi B 6 x), g))
            else (None, g9));
         (le_canal, g11) = random_choice B [''WEB'', ''MOBILE'', ''ATM'', ''POS''] g10
     in (\<lparr>transaction_id = Some (''TRX_'' @ format_0d 8 i),
          client_id = Some (''CLIENT_'' @ format_0d 6 (nat num_client)),
          montant = Some (arrondi B 2 montant_brut),
          devise = Some ''EUR'',
          date_heure = Some (Texte quand),
          type_transaction = Some le_type,
          type_carte = Some la_carte,
          merchant_id = Some (''MERCHANT_'' @ format_0d 5 (nat num_marchand)),
          merchant_category = merchant_cat,
          pays = Some ''FR'',
          ville = la_ville,
          latitude = lat,
          longitude = lon,
          canal = Some le_canal,
          is_fraud = Some fraude\<rparr>, g11, f2))"

text \<open>A \<^verbatim>\<open>for\<close> loop that appends one record per turn and threads the random sources.\<close>

fun boucle :: "('i \<Rightarrow> 's \<Rightarrow> 'a \<times> 's) \<Rightarrow> 'i list \<Rightarrow> 's \<Rightarrow> 'a list \<times> 's" where
  "boucle corps [] s = ([], s)"
| "boucle corps (i # reste) s =
    (let (x, s1) = corps i s; (xs, s2) = boucle corps reste s1 in (x # xs, s2))"

text \<open>Lines 104-124, one turn: the condition of each conditional expression is drawn first.\<close>

definition generer_client ::
  "('g, 'f) bibliotheque \<Rightarrow> int \<Rightarrow> string option \<Rightarrow> 'g \<times> 'f \<Rightarrow> client \<times> 'g \<times> 'f" where
  "generer_client B maintenant cid s =
    (let (g0, f0) = s;
         (u, g1) = random_random B g0;
         (score, g2) =
           (if u > 0.11 then (let (x, g) = random_randint B 300 850 g1 in (Some (of_int x), g))
            else (None, g1));
         (l_age, g3) = random_randint B 18 80 g2;
         (le_sexe, g4) = random_choice B [''M'', ''F'', ''X''] g3;
         (cp, f1) = fake_postcode B f0;
         (anciennete, g5) = random_randint B 1 120 g4;
         (produits, g6) = random_randint B 1 5 g5;
         (revenu, g7) = random_choice B [''0-20K'', ''20-40K'', ''40-60K'', ''60-100K'', ''>100K''] g6;
         (v, g8) = random_random B g7;
         (fraude, f2) =
           (if v < 0.05 then (let (d, f) = fake_date_between B maintenant f1 in (Some (Texte d), f))
            else (None, f1))
     in (\<lparr>age = Some l_age, sexe = Some le_sexe, code_postal = Some (take 5 cp),
          anciennete_mois = Some anciennete, nb_produits = Some produits,
          revenu_annuel_tranche = Some revenu, score_credit = score,
          date_derniere_fraude = fraude, client_id_c = cid\<rparr>, g8, f2))"

text \<open>Lines 134-152, one turn.\<close>

definition generer_log ::
  "('g, 'f) bibliotheque \<Rightarrow> int \<Rightarrow> string option list \<Rightarrow> nat \<Rightarrow> 'g \<times> 'f \<Rightarrow>
   log_comportement \<times> 'g \<times> 'f" where
  "generer_log B maintenant clients_uniques i s =
    (let (g0, f0) = s;
         (cid, g1) = random_choice B clients_uniques g0;
         (quand, f1) = fake_date_time_between B maintenant f0;
         (l_action, g2) =
           random_choice B [''login'', ''navigation_compte'', ''consultation_solde'',
                            ''transaction'', ''logout''] g1;
         (appareil, g3) = random_choice B [''mobile'', ''desktop'', ''tablet''] g2;
         (systeme, g4) = random_choice B [''iOS'', ''Android'', ''Windows'', ''macOS''] g3;
         (navigateur, g5) = random_choice B [''Chrome'', ''Safari'', ''Firefox'', ''Edge''] g4;
         (ip, f2) = fake_ipv4 B f1;
         (duree, g6) = random_randint B 30 3600 g5
     in (\<lparr>session_id = Some (''SESSION_'' @ format_0d 8 i), client_id_l = cid,
          timestamp = Some (Texte quand), action = Some l_action,
          device_type = Some appareil, os = Some systeme, browser = Some navigateur,
          ip_address = Some ip, duree_session_sec = Some (of_int duree)\<rparr>, g6, f2))"

text \<open>
  \<^verbatim>\<open>generer_donnees_test\<close>: the three collections it writes to the raw files, and the random
  sources after the run. With no transaction the frame has no column and line 97 raises.
  The clock is read once: the run is taken to last less than the resolution of the dates.
\<close>

definition generer_donnees_test ::
  "('g, 'f) bibliotheque \<Rightarrow> int \<Rightarrow> nat \<Rightarrow> 'g \<times> 'f \<Rightarrow>
   erreur + (transaction list \<times> client list \<times> log_comportement list) \<times> 'g \<times> 'f" where
  "generer_donnees_test B maintenant nb_transactions s =
    (let (transactions, s1) =
           boucle (generer_transaction B maintenant) [0..<nb_transactions] s
     in if transactions = [] then Inl (KeyError ''is_fraud'')
        else
          (let clients_uniques = drop_duplicates (\<lambda>c. c) (map client_id transactions);
               (clients, s2) = boucle (generer_client B maintenant) clients_uniques s1;
               (logs, s3) =
                 boucle (generer_log B maintenant clients_uniques) [0..<nb_transactions * 5] s2
           in Inr ((transactions, clients, logs), s3)))"

section \<open>The Cleaner: transactions\<close>

text \<open>
  The steps of the Cleaner as functions on the rows of a frame. A call
  \<^verbatim>\<open>df[col].fillna(v, inplace=True)\<close> is taken to write the column of the frame, as it does in
  pandas without copy-on-write. The functions of this section work on every frame that
  has the transaction columns.
\<close>

text \<open>Lines 263-268: both coordinate columns are filled with their own median.\<close>

definition imputer_coordonnees :: "'a transaction_scheme list \<Rightarrow> 'a transaction_scheme list" where
  "imputer_coordonnees ts =
    (let m_lat = mediane (map latitude ts);
         ts1 = map (\<lambda>t. t\<lparr>latitude := fillna m_lat (latitude t)\<rparr>) ts;
         m_lon = mediane (map longitude ts1)
     in map (\<lambda>t. t\<lparr>longitude := fillna m_lon (longitude t)\<rparr>) ts1)"

text \<open>Lines 271-274.\<close>

definition imputer_ville :: "'a transaction_scheme list \<Rightarrow> 'a transaction_scheme list" where
  "imputer_ville ts = map (\<lambda>t. t\<lparr>ville := fillna (Some ''VILLE_INCONNUE'') (ville t)\<rparr>) ts"

text \<open>Lines 276-281: \<^verbatim>\<open>mode()[0]\<close> when the mode is not empty, \<^verbatim>\<open>'AUTRE'\<close> otherwise.\<close>

definition mode_cat :: "'a transaction_scheme list \<Rightarrow> string" where
  "mode_cat ts =
    (let modes = mode_serie (map merchant_category ts) in
     if modes \<noteq> [] then hd modes else ''AUTRE'')"

definition imputer_merchant_category :: "'a transaction_scheme list \<Rightarrow> 'a transaction_scheme list" where
  "imputer_merchant_category ts =
    (let m = mode_cat ts in
     map (\<lambda>t. t\<lparr>merchant_category := fillna (Some m) (merchant_category t)\<rparr>) ts)"

text \<open>Line 292: \<^verbatim>\<open>df_trans['montant'] >= 0\<close> is false on a missing amount.\<close>

definition montant_positif :: "'a transaction_scheme \<Rightarrow> bool" where
  "montant_positif t = (case montant t of None \<Rightarrow> False | Some m \<Rightarrow> 0 \<le> m)"

text \<open>Line 297: the converted column is assigned back, row by row.\<close>

definition affecter_date_heure ::
  "'a transaction_scheme list \<Rightarrow> horodatage option list \<Rightarrow> 'a transaction_scheme list" where
  "affecter_date_heure ts ds = map2 (\<lambda>t d. t\<lparr>date_heure := d\<rparr>) ts ds"

text \<open>Section 1 of \<^verbatim>\<open>nettoyer_donnees\<close>, lines 263-297, on the copied frame.\<close>

definition nettoyer_transactions ::
  "(string \<Rightarrow> int option) \<Rightarrow> 'a transaction_scheme list \<Rightarrow> erreur + 'a transaction_scheme list" where
  "nettoyer_transactions parse ts =
    (let t1 = imputer_coordonnees ts;
         t2 = imputer_ville t1;
         t3 = imputer_merchant_category t2;
         t4 = drop_duplicates transaction_id t3;
         t5 = filter montant_positif t4
     in case to_datetime parse (map date_heure t5) of
          Inl e \<Rightarrow> Inl e
        | Inr ds \<Rightarrow> Inr (affecter_date_heure t5 ds))"

section \<open>The Cleaner: clients and logs\<close>

text \<open>Lines 320-325: the credit score is the only client column the Cleaner writes.\<close>

definition nettoyer_clients :: "'a attributs_client_scheme list \<Rightarrow> 'a attributs_client_scheme list" where
  "nettoyer_clients cs =
    (let med = mediane (map score_credit cs) in
     map (\<lambda>c. c\<lparr>score_credit := fillna med (score_credit c)\<rparr>) cs)"

definition affecter_timestamp ::
  "log_comportement list \<Rightarrow> horodatage option list \<Rightarrow> log_comportement list" where
  "affecter_timestamp ls ds = map2 (\<lambda>l d. l\<lparr>timestamp := d\<rparr>) ls ds"

text \<open>Lines 345-349: the timestamp is converted first, then rows equal on every column are
  dropped.\<close>

definition nettoyer_logs ::
  "(string \<Rightarrow> int option) \<Rightarrow> log_comportement list \<Rightarrow> erreur + log_comportement list" where
  "nettoyer_logs parse ls =
    (case to_datetime parse (map timestamp ls) of
       Inl e \<Rightarrow> Inl e
     | Inr ds \<Rightarrow> Inr (drop_duplicates (\<lambda>l. l) (affecter_timestamp ls ds)))"

section \<open>The Aggregator\<close>

text \<open>\<^verbatim>\<open>Series.mean()\<close>: missing cells are skipped; NaN when no value is left.\<close>

definition moyenne :: "real option list \<Rightarrow> real option" where
  "moyenne col =
    (let vs = valeurs col in
     if vs = [] then None else Some (sum_list vs / real (length vs)))"

text \<open>Lines 377-381: \<^verbatim>\<open>groupby('client_id')\<close> drops the rows with a missing key and sorts the
  groups by key; \<^verbatim>\<open>count\<close> counts the non-missing session identifiers of a group.\<close>

definition agreger_logs :: "log_comportement list \<Rightarrow> features_logs list" where
  "agreger_logs ls =
    map (\<lambda>k. let g = filter (\<lambda>l. client_id_l l = Some k) ls in
              \<lparr>client_id_f = k,
               nb_sessions_f = length (valeurs (map session_id g)),
               duree_moy_f = moyenne (map duree_session_sec g)\<rparr>)
        (sort (remdups (valeurs (map client_id_l ls))))"

text \<open>\<^verbatim>\<open>left.merge(right, on=key, how='left')\<close>: the left rows in their order, each followed
  by one output row per right row of the same key (two missing keys match), or by one
  row with the right columns missing when no right row has the key.\<close>

definition merge_left ::
  "('l \<Rightarrow> 'k) \<Rightarrow> ('r \<Rightarrow> 'k) \<Rightarrow> ('l \<Rightarrow> 'r option \<Rightarrow> 'o) \<Rightarrow> 'l list \<Rightarrow> 'r list \<Rightarrow> 'o list" where
  "merge_left cle_g cle_d joindre gs ds =
    concat (map (\<lambda>g. let ms = filter (\<lambda>d. cle_d d = cle_g g) ds in
                      if ms = [] then [joindre g None]
                      else map (\<lambda>d. joindre g (Some d)) ms) gs)"

definition attributs_absents :: "attributs_client" where
  "attributs_absents =
    \<lparr>age = None, sexe = None, code_postal = None, anciennete_mois = None, nb_produits = None,
     revenu_annuel_tranche = None, score_credit = None, date_derniere_fraude = None\<rparr>"

definition joindre_client :: "transaction \<Rightarrow> client option \<Rightarrow> transaction_client" where
  "joindre_client t c =
    transaction.extend t
      (transaction_client.fields
        (case c of None \<Rightarrow> attributs_absents | Some c' \<Rightarrow> attributs_client.truncate c'))"

definition joindre_features :: "transaction_client \<Rightarrow> features_logs option \<Rightarrow> dataset_final" where
  "joindre_features m f =
    transaction_client.extend m
      (dataset_final.fields
        (case f of None \<Rightarrow> None | Some f' \<Rightarrow> Some (real (nb_sessions_f f')))
        (case f of None \<Rightarrow> None | Some f' \<Rightarrow> duree_moy_f f'))"

text \<open>Lines 377-404 of the aggregation method, on the three cleaned frames.\<close>

definition agreger_donnees ::
  "transaction list \<Rightarrow> client list \<Rightarrow> log_comportement list \<Rightarrow> dataset_final list" where
  "agreger_donnees df_trans df_clients df_logs =
    (let logs_agg = agreger_logs df_logs;
         m1 = merge_left client_id client_id_c joindre_client df_trans df_clients;
         m2 = merge_left client_id (\<lambda>f. Some (client_id_f f)) joindre_features m1 logs_agg
     in map (\<lambda>d. d\<lparr>nb_sessions := fillna (Some 0) (nb_sessions d),
                    duree_moy_session_sec := fillna (Some 0) (duree_moy_session_sec d)\<rparr>) m2)"

section \<open>Frames and the Quality Analyzer\<close>

datatype frame =
    Transactions "transaction list"
  | Clients "client list"
  | Logs "log_comportement list"
  | Dataset "dataset_final list"

definition nb_lignes :: "frame \<Rightarrow> nat" where
  "nb_lignes df =
    (case df of Transactions ts \<Rightarrow> length ts | Clients cs \<Rightarrow> length cs
              | Logs ls \<Rightarrow> length ls | Dataset ds \<Rightarrow> length ds)"

text \<open>The missing-cell count of every column, in column order.\<close>

definition na_transaction :: "'a transaction_scheme list \<Rightarrow> (string \<times> nat) list" where
  "na_transaction ts =
    [(''transaction_id'', compter_na (map transaction_id ts)),
     (''client_id'', compter_na (map client_id ts)),
     (''montant'', compter_na (map montant ts)),
     (''devise'', compter_na (map devise ts)),
     (''date_heure'', compter_na (map date_heure ts)),
     (''type_transaction'', compter_na (map type_transaction ts)),
     (''type_carte'', compter_na (map type_carte ts)),
     (''merchant_id'', compter_na (map merchant_id ts)),
     (''merchant_category'', compter_na (map merchant_category ts)),
     (''pays'', compter_na (map pays ts)),
     (''ville'', compter_na (map ville ts)),
     (''latitude'', compter_na (map latitude ts)),
     (''longitude'', compter_na (map longitude ts)),
     (''canal'', compter_na (map canal ts)),
     (''is_fraud'', compter_na (map is_fraud ts))]"

definition na_attributs :: "'a attributs_client_scheme list \<Rightarrow> (string \<times> nat) list" where
  "na_attributs cs =
    [(''age'', compter_na (map age cs)),
     (''sexe'', compter_na (map sexe cs)),
     (''code_postal'', compter_na (map code_postal cs)),
     (''anciennete_mois'', compter_na (map anciennete_mois cs)),
     (''nb_produits'', compter_na (map nb_produits cs)),
     (''revenu_annuel_tranche'', compter_na (map revenu_annuel_tranche cs)),
     (''score_credit'', compter_na (map score_credit cs)),
     (''date_derniere_fraude'', compter_na (map date_derniere_fraude cs))]"

definition na_logs :: "log_comportement list \<Rightarrow> (string \<times> nat) list" where
  "na_logs ls =
    [(''session_id'', compter_na (map session_id ls)),
     (''client_id'', compter_na (map client_id_l ls)),
     (''timestamp'', compter_na (map timestamp ls)),
     (''action'', compter_na (map action ls)),
     (''device_type'', compter_na (map device_type ls)),
     (''os'', compter_na (map os ls)),
     (''browser'', compter_na (map browser ls)),
     (''ip_address'', compter_na (map ip_address ls)),
     (''duree_session_sec'', compter_na (map duree_session_sec ls))]"

definition na_colonnes :: "frame \<Rightarrow> (string \<times> nat) list" where
  "na_colonnes df =
    (case df of
       Transactions ts \<Rightarrow> na_transaction ts
     | Clients cs \<Rightarrow> (''client_id'', compter_na (map client_id_c cs)) # na_attributs cs
     | Logs ls \<Rightarrow> na_logs ls
     | Dataset ds \<Rightarrow>
         na_transaction ds @ na_attributs (map attributs ds) @
         [(''nb_sessions'', compter_na (map nb_sessions ds)),
          (''duree_moy_session_sec'', compter_na (map duree_moy_session_sec ds))])"

definition nb_colonnes :: "frame \<Rightarrow> nat" where
  "nb_colonnes df = length (na_colonnes df)"

text \<open>\<^verbatim>\<open>df.duplicated().sum()\<close>: the rows equal, on every column, to an earlier row.\<close>

definition nb_doublons :: "frame \<Rightarrow> nat" where
  "nb_doublons df =
    (case df of
       Transactions ts \<Rightarrow> length ts - length (drop_duplicates (\<lambda>r. r) ts)
     | Clients cs \<Rightarrow> length cs - length (drop_duplicates (\<lambda>r. r) cs)
     | Logs ls \<Rightarrow> length ls - length (drop_duplicates (\<lambda>r. r) ls)
     | Dataset ds \<Rightarrow> length ds - length (drop_duplicates (\<lambda>r. r) ds))"

text \<open>The columns \<^verbatim>\<open>montant\<close> and \<^verbatim>\<open>latitude\<close>, for the frames that have them; a comparison
  with a missing cell is false.\<close>

definition serie_montant :: "frame \<Rightarrow> real option list option" where
  "serie_montant df =
    (case df of Transactions ts \<Rightarrow> Some (map montant ts)
              | Dataset ds \<Rightarrow> Some (map montant ds) | _ \<Rightarrow> None)"

definition serie_latitude :: "frame \<Rightarrow> real option list option" where
  "serie_latitude df =
    (case df of Transactions ts \<Rightarrow> Some (map latitude ts)
              | Dataset ds \<Rightarrow> Some (map latitude ds) | _ \<Rightarrow> None)"

definition compter :: "(real \<Rightarrow> bool) \<Rightarrow> real option list \<Rightarrow> nat" where
  "compter P col = length (filter (\<lambda>x. case x of None \<Rightarrow> False | Some v \<Rightarrow> P v) col)"

text \<open>Lines 230-237.\<close>

definition anomalies_de :: "frame \<Rightarrow> (string \<times> nat) list" where
  "anomalies_de df =
    (case serie_montant df of
       None \<Rightarrow> []
     | Some ms \<Rightarrow> [(''montants_negatifs'', compter (\<lambda>v. v < 0) ms),
                  (''montants_extremes'', compter (\<lambda>v. v > 10000) ms)]) @
    (case serie_latitude df of
       None \<Rightarrow> []
     | Some lats \<Rightarrow> [(''coordonnees_invalides'', compter (\<lambda>v. v < - 90 \<or> v > 90) lats)])"

text \<open>The report of \<^verbatim>\<open>analyser_qualite_donnees\<close>. The entry of a column with missing cells
  holds their count; its percentage, the count over the row count rounded to two decimals
  in floating point, is left out.\<close>

record stats_qualite =
  nom :: "string"
  stat_lignes :: "nat"
  stat_colonnes :: "nat"
  valeurs_manquantes :: "(string \<times> nat) list"
  doublons :: "nat"
  anomalies :: "(string \<times> nat) list"

definition analyser_qualite_donnees :: "frame \<Rightarrow> string \<Rightarrow> stats_qualite" where
  "analyser_qualite_donnees df nom_source =
    \<lparr>nom = nom_source,
     stat_lignes = nb_lignes df,
     stat_colonnes = nb_colonnes df,
     valeurs_manquantes = filter (\<lambda>(c, n). n > 0) (na_colonnes df),
     doublons = nb_doublons df,
     anomalies = anomalies_de df\<rparr>"

section \<open>The pipeline object and the store of frames\<close>

text \<open>
  A pandas frame is a mutable object. The store holds the frames that exist, a reference
  is an index into it, and the dictionaries of the pipeline hold references, in
  insertion order. \<^verbatim>\<open>df.copy()\<close> and a boolean selection \<^verbatim>\<open>df[mask]\<close> make a new object; the
  \<^verbatim>\<open>inplace=True\<close> operations and the column assignments write to the object they are
  called on.
\<close>

type_synonym tas = "frame list"

record pipeline =
  data_sources :: "(string \<times> nat) list"
  cleaned_data :: "(string \<times> nat) list"
  stats_nettoyage :: "(string \<times> stats_qualite \<times> stats_qualite) list"

text \<open>\<^verbatim>\<open>d[k] = v\<close>: an existing key keeps its place.\<close>

definition dict_set :: "'k \<Rightarrow> 'v \<Rightarrow> ('k \<times> 'v) list \<Rightarrow> ('k \<times> 'v) list" where
  "dict_set k v d =
    (if k \<in> fst ` set d then map (\<lambda>(k', v'). if k' = k then (k, v) else (k', v')) d
     else d @ [(k, v)])"

text \<open>\<^verbatim>\<open>self.data_sources[nom]\<close>\<close>

definition source :: "tas \<Rightarrow> pipeline \<Rightarrow> string \<Rightarrow> erreur + nat" where
  "source h p nom_source =
    (case map_of (data_sources p) nom_source of
       None \<Rightarrow> Inl (KeyError nom_source)
     | Some a \<Rightarrow> if a < length h then Inr a else Inl (KeyError nom_source))"

definition modifier :: "nat \<Rightarrow> (frame \<Rightarrow> frame) \<Rightarrow> tas \<Rightarrow> tas" where
  "modifier a f h = h[a := f (h ! a)]"

text \<open>The steps of section 1 on a frame object. The guards \<^verbatim>\<open>'latitude' in df.columns\<close>,
  \<^verbatim>\<open>'ville' in ...\<close> and \<^verbatim>\<open>'merchant_category' in ...\<close> hold for the frames with the
  transaction columns; the other frames have no \<^verbatim>\<open>transaction_id\<close>, and line 285 raises.\<close>

definition coordonnees_en_place :: "frame \<Rightarrow> frame" where
  "coordonnees_en_place df =
    (case df of Transactions ts \<Rightarrow> Transactions (imputer_coordonnees ts)
              | Dataset ds \<Rightarrow> Dataset (imputer_coordonnees ds) | _ \<Rightarrow> df)"

definition ville_en_place :: "frame \<Rightarrow> frame" where
  "ville_en_place df =
    (case df of Transactions ts \<Rightarrow> Transactions (imputer_ville ts)
              | Dataset ds \<Rightarrow> Dataset (imputer_ville ds) | _ \<Rightarrow> df)"

definition categorie_en_place :: "frame \<Rightarrow> frame" where
  "categorie_en_place df =
    (case df of Transactions ts \<Rightarrow> Transactions (imputer_merchant_category ts)
              | Dataset ds \<Rightarrow> Dataset (imputer_merchant_category ds) | _ \<Rightarrow> df)"

definition doublons_en_place :: "frame \<Rightarrow> erreur + frame" where
  "doublons_en_place df =
    (case df of Transactions ts \<Rightarrow> Inr (Transactions (drop_duplicates transaction_id ts))
              | Dataset ds \<Rightarrow> Inr (Dataset (drop_duplicates transaction_id ds))
              | _ \<Rightarrow> Inl (KeyError ''transaction_id''))"

definition selection_montant :: "frame \<Rightarrow> frame" where
  "selection_montant df =
    (case df of Transactions ts \<Rightarrow> Transactions (filter montant_positif ts)
              | Dataset ds \<Rightarrow> Dataset (filter montant_positif ds) | _ \<Rightarrow> df)"

definition date_heure_en_place :: "(string \<Rightarrow> int option) \<Rightarrow> frame \<Rightarrow> erreur + frame" where
  "date_heure_en_place parse df =
    (case df of
       Transactions ts \<Rightarrow>
         (case to_datetime parse (map date_heure ts) of
            Inl e \<Rightarrow> Inl e | Inr ds \<Rightarrow> Inr (Transactions (affecter_date_heure ts ds)))
     | Dataset rs \<Rightarrow>
         (case to_datetime parse (map date_heure rs) of
            Inl e \<Rightarrow> Inl e | Inr ds \<Rightarrow> Inr (Dataset (affecter_date_heure rs ds)))
     | _ \<Rightarrow> Inl (KeyError ''date_heure''))"

text \<open>Section 2: the guard \<^verbatim>\<open>'score_credit' in df_clients.columns\<close> holds for a client frame and
  for a joined frame, and the other frames are left as they are.\<close>

definition score_en_place :: "frame \<Rightarrow> frame" where
  "score_en_place df =
    (case df of
       Clients cs \<Rightarrow> Clients (nettoyer_clients cs)
     | Dataset ds \<Rightarrow>
         (let med = mediane (map (\<lambda>d. score_credit (attributs d)) ds) in
          Dataset (map (\<lambda>d. d\<lparr>attributs :=
                     (attributs d)\<lparr>score_credit := fillna med (score_credit (attributs d))\<rparr>\<rparr>) ds))
     | _ \<Rightarrow> df)"

text \<open>Section 3: only a log frame has a \<^verbatim>\<open>timestamp\<close> column.\<close>

definition timestamp_en_place :: "(string \<Rightarrow> int option) \<Rightarrow> frame \<Rightarrow> erreur + frame" where
  "timestamp_en_place parse df =
    (case df of
       Logs ls \<Rightarrow>
         (case to_datetime parse (map timestamp ls) of
            Inl e \<Rightarrow> Inl e | Inr ds \<Rightarrow> Inr (Logs (affecter_timestamp ls ds)))
     | _ \<Rightarrow> Inl (KeyError ''timestamp''))"

definition doublons_stricts_en_place :: "frame \<Rightarrow> frame" where
  "doublons_stricts_en_place df =
    (case df of
       Transactions ts \<Rightarrow> Transactions (drop_duplicates (\<lambda>r. r) ts)
     | Clients cs \<Rightarrow> Clients (drop_duplicates (\<lambda>r. r) cs)
     | Logs ls \<Rightarrow> Logs (drop_duplicates (\<lambda>r. r) ls)
     | Dataset ds \<Rightarrow> Dataset (drop_duplicates (\<lambda>r. r) ds))"

text \<open>A run of a stage ends with the new state, or with the exception raised and the state
  at that point.\<close>

type_synonym etat = "tas \<times> pipeline"
type_synonym issue = "(erreur \<times> etat) + etat"

text \<open>Lines 252-309.\<close>

definition nettoyer_section_transactions :: "(string \<Rightarrow> int option) \<Rightarrow> etat \<Rightarrow> issue" where
  "nettoyer_section_transactions parse s =
    (let h = fst s; p = snd s in
     case source h p ''transactions'' of
       Inl e \<Rightarrow> Inl (e, h, p)
     | Inr a0 \<Rightarrow>
        (let df_trans = length h;
             h1 = h @ [h ! a0];
             stats_avant = analyser_qualite_donnees (h1 ! df_trans) ''transactions'';
             h2 = modifier df_trans coordonnees_en_place h1;
             h3 = modifier df_trans ville_en_place h2;
             h4 = modifier df_trans categorie_en_place h3
         in case doublons_en_place (h4 ! df_trans) of
              Inl e \<Rightarrow> Inl (e, h4, p)
            | Inr sans_doublons \<Rightarrow>
               (let h5 = h4[df_trans := sans_doublons];
                    df_trans' = length h5;
                    h6 = h5 @ [selection_montant (h5 ! df_trans)]
                in case date_heure_en_place parse (h6 ! df_trans') of
                     Inl e \<Rightarrow> Inl (e, h6, p)
                   | Inr converti \<Rightarrow>
                      (let h7 = h6[df_trans' := converti];
                           stats_apres = analyser_qualite_donnees (h7 ! df_trans') ''transactions''
                       in Inr (h7, p\<lparr>cleaned_data := dict_set ''transactions'' df_trans' (cleaned_data p),
                                     stats_nettoyage := dict_set ''transactions'' (stats_avant, stats_apres)
                                                          (stats_nettoyage p)\<rparr>)))))"

text \<open>Lines 311-338.\<close>

definition nettoyer_section_clients :: "etat \<Rightarrow> issue" where
  "nettoyer_section_clients s =
    (let h = fst s; p = snd s in
     case source h p ''clients'' of
       Inl e \<Rightarrow> Inl (e, h, p)
     | Inr a0 \<Rightarrow>
        (let df_clients = length h;
             h1 = h @ [h ! a0];
             stats_avant = analyser_qualite_donnees (h1 ! df_clients) ''clients'';
             h2 = modifier df_clients score_en_place h1;
             stats_apres = analyser_qualite_donnees (h2 ! df_clients) ''clients''
         in Inr (h2, p\<lparr>cleaned_data := dict_set ''clients'' df_clients (cleaned_data p),
                       stats_nettoyage := dict_set ''clients'' (stats_avant, stats_apres)
                                            (stats_nettoyage p)\<rparr>)))"

text \<open>Lines 340-354.\<close>

definition nettoyer_section_logs :: "(string \<Rightarrow> int option) \<Rightarrow> etat \<Rightarrow> issue" where
  "nettoyer_section_logs parse s =
    (let h = fst s; p = snd s in
     case source h p ''logs'' of
       Inl e \<Rightarrow> Inl (e, h, p)
     | Inr a0 \<Rightarrow>
        (let df_logs = length h;
             h1 = h @ [h ! a0]
         in case timestamp_en_place parse (h1 ! df_logs) of
              Inl e \<Rightarrow> Inl (e, h1, p)
            | Inr converti \<Rightarrow>
               (let h2 = h1[df_logs := converti];
                    h3 = modifier df_logs doublons_stricts_en_place h2
                in Inr (h3, p\<lparr>cleaned_data := dict_set ''logs'' df_logs (cleaned_data p)\<rparr>))))"

definition puis :: "issue \<Rightarrow> (etat \<Rightarrow> issue) \<Rightarrow> issue" where
  "puis r f = (case r of Inl x \<Rightarrow> Inl x | Inr s \<Rightarrow> f s)"

text \<open>\<^verbatim>\<open>nettoyer_donnees\<close>: the three sections in order; an exception ends the run.\<close>

definition nettoyer_donnees :: "(string \<Rightarrow> int option) \<Rightarrow> etat \<Rightarrow> issue" where
  "nettoyer_donnees parse s =
    puis (puis (nettoyer_section_transactions parse s) nettoyer_section_clients)
         (nettoyer_section_logs parse)"

definition etat_final :: "issue \<Rightarrow> etat" where
  "etat_final r = (case r of Inl x \<Rightarrow> snd x | Inr s \<Rightarrow> s)"

text \<open>The frame a dictionary of the pipeline holds under a name.\<close>

definition frame_de :: "tas \<Rightarrow> (string \<times> nat) list \<Rightarrow> string \<Rightarrow> frame option" where
  "frame_de h d nom_table =
    (case map_of d nom_table of
       None \<Rightarrow> None
     | Some a \<Rightarrow> if a < length h then Some (h ! a) else None)"

section \<open>The Loader\<close>

record stat_chargement =
  lignes :: "nat"
  colonnes :: "nat"
  fichier :: "string"
  status :: "string"

text \<open>What the loader prints about a table: the integrity check passed, failed, or the
  load was skipped.\<close>

datatype message =
    Integrite_verifiee nat nat
  | Erreur_integrite nat nat
  | Postgres_non_configure

definition chemin_sortie :: "string \<Rightarrow> string" where
  "chemin_sortie table_name = ''data/processed/'' @ table_name @ ''_clean.csv''"

text \<open>
  Lines 434-467, the loop over \<^verbatim>\<open>self.cleaned_data.items()\<close>. The file system is the
  parameter \<open>relire\<close>: the row count \<^verbatim>\<open>len(pd.read_csv(output_path))\<close> of the file that
  \<^verbatim>\<open>df.to_csv(output_path)\<close> leaves, or \<open>None\<close> when writing or reading it raises.
\<close>

fun charger_tables ::
  "(string \<Rightarrow> frame \<Rightarrow> nat option) \<Rightarrow> bool \<Rightarrow> (string \<times> frame) list \<Rightarrow>
   (string \<times> stat_chargement) list \<times> (string \<times> message) list \<Rightarrow>
   erreur + (string \<times> stat_chargement) list \<times> (string \<times> message) list" where
  "charger_tables relire simulate [] acc = Inr acc"
| "charger_tables relire simulate ((table_name, df) # reste) acc =
    (if simulate then
       (let output_path = chemin_sortie table_name in
        case relire output_path df of
          None \<Rightarrow> Inl (IOError output_path)
        | Some nb_lignes_fichier \<Rightarrow>
           (let nb_lignes_source = nb_lignes df;
                msg = (if nb_lignes_source = nb_lignes_fichier
                       then Integrite_verifiee nb_lignes_source nb_lignes_fichier
                       else Erreur_integrite nb_lignes_source nb_lignes_fichier)
            in charger_tables relire simulate reste
                 (dict_set table_name
                    \<lparr>lignes = nb_lignes_source, colonnes = nb_colonnes df,
                     fichier = output_path, status = ''OK''\<rparr> (fst acc),
                  snd acc @ [(table_name, msg)])))
     else charger_tables relire simulate reste
            (fst acc, snd acc @ [(table_name, Postgres_non_configure)]))"

definition charger_donnees ::
  "(string \<Rightarrow> frame \<Rightarrow> nat option) \<Rightarrow> bool \<Rightarrow> (string \<times> frame) list \<Rightarrow>
   erreur + (string \<times> stat_chargement) list \<times> (string \<times> message) list" where
  "charger_donnees relire simulate tables = charger_tables relire simulate tables ([], [])"

section \<open>Notions used in the statements\<close>

text \<open>The criterion of the specification for a row with invalid coordinates: the latitude
  outside \<open>[-90, 90]\<close> or the longitude outside \<open>[-180, 180]\<close>.\<close>

definition coordonnees_hors_plage :: "'a transaction_scheme \<Rightarrow> bool" where
  "coordonnees_hors_plage t =
    ((case latitude t of None \<Rightarrow> False | Some v \<Rightarrow> v < - 90 \<or> v > 90) \<or>
     (case longitude t of None \<Rightarrow> False | Some v \<Rightarrow> v < - 180 \<or> v > 180))"

text \<open>The rule of the specification for the merchant category: the most frequent non-missing
  value, the first met in the column among equally frequent ones, and the default label
  when every cell is missing.\<close>

definition mode_premier_rencontre :: "string option list \<Rightarrow> string" where
  "mode_premier_rencontre col =
    (let vs = valeurs col;
         m = fold max (map (count_list vs) vs) 0
     in case find (\<lambda>v. count_list vs v = m) vs of None \<Rightarrow> ''AUTRE'' | Some v \<Rightarrow> v)"

text \<open>What a stage leaves alone: every frame object that existed before it, and the
  dictionary of the sources.\<close>

definition sources_intactes :: "etat \<Rightarrow> etat \<Rightarrow> bool" where
  "sources_intactes s s' =
    (take (length (fst s)) (fst s') = fst s \<and> data_sources (snd s') = data_sources (snd s))"

text \<open>The state the Cleaner leaves a transaction table in: each coordinate column is filled
  or has no value at all, city and category are filled, no amount is negative or missing,
  no timestamp is still a text, and no identifier occurs twice.\<close>

definition propre :: "'a transaction_scheme list \<Rightarrow> bool" where
  "propre ts =
    (((\<forall>t \<in> set ts. latitude t \<noteq> None) \<or> (\<forall>t \<in> set ts. latitude t = None)) \<and>
     ((\<forall>t \<in> set ts. longitude t \<noteq> None) \<or> (\<forall>t \<in> set ts. longitude t = None)) \<and>
     (\<forall>t \<in> set ts. ville t \<noteq> None \<and> merchant_category t \<noteq> None \<and> montant_positif t \<and>
                     (\<forall>s. date_heure t \<noteq> Some (Texte s))) \<and>
     distinct (map transaction_id ts))"

section \<open>Example data\<close>

definition ligne_exemple :: transaction where
  "ligne_exemple =
    \<lparr>transaction_id = Some ''TRX_00000000'', client_id = Some ''CLIENT_000001'',
     montant = Some 10, devise = Some ''EUR'',
     date_heure = Some (Texte ''2024-01-01T00:00:00''),
     type_transaction = Some ''PAIEMENT'', type_carte = Some ''DEBIT'',
     merchant_id = Some ''MERCHANT_00001'', merchant_category = Some ''ESSENCE'',
     pays = Some ''FR'', ville = Some ''Paris'', latitude = Some 48, longitude = Some 2,
     canal = Some ''WEB'', is_fraud = Some False\<rparr>"

text \<open>A stand-in for the parser of pandas: it rejects the empty text only.\<close>

definition parse_exemple :: "string \<Rightarrow> int option" where
  "parse_exemple s = (if s = [] then None else Some (int (length s)))"

definition client_exemple :: client where
  "client_exemple =
    \<lparr>age = Some 40, sexe = Some ''F'', code_postal = Some ''75001'', anciennete_mois = Some 12,
     nb_produits = Some 2, revenu_annuel_tranche = Some ''20-40K'', score_credit = Some 700,
     date_derniere_fraude = None, client_id_c = Some ''CLIENT_000001''\<rparr>"

definition log_exemple :: log_comportement where
  "log_exemple =
    \<lparr>session_id = Some ''SESSION_00000000'', client_id_l = Some ''CLIENT_000001'',
     timestamp = Some (Texte ''2024-01-01T00:00:00''), action = Some ''login'',
     device_type = Some ''mobile'', os = Some ''iOS'', browser = Some ''Safari'',
     ip_address = Some ''192.0.2.1'', duree_session_sec = Some 60\<rparr>"

text \<open>A transaction without a city: the generator leaves its coordinates missing too.\<close>

definition ligne_sans_ville :: transaction where
  "ligne_sans_ville = ligne_exemple\<lparr>ville := None, latitude := None, longitude := None\<rparr>"

text \<open>Two categories met once each, the alphabetically later one first, and a missing one.\<close>

definition lignes_ex_aequo :: "transaction list" where
  "lignes_ex_aequo =
    [ligne_exemple\<lparr>merchant_category := Some ''RESTAURANT''\<rparr>,
     ligne_exemple\<lparr>transaction_id := Some ''TRX_00000001''\<rparr>,
     ligne_exemple\<lparr>transaction_id := Some ''TRX_00000002'', merchant_category := None\<rparr>]"

text \<open>A file system that loses the last row of the transaction file.\<close>

definition relire_tronque :: "string \<Rightarrow> frame \<Rightarrow> nat option" where
  "relire_tronque path df =
    (if path = chemin_sortie ''transactions'' then Some (nb_lignes df - 1)
     else Some (nb_lignes df))"

text \<open>Stand-ins for the library: every draw returns the low end of its range and counts the
  calls, and a date is the clock reading thirty days back, written in decimal.\<close>

definition bibliotheque_exemple :: "(nat, nat) bibliotheque" where
  "bibliotheque_exemple =
    \<lparr>random_random = (\<lambda>g. (1 / 2, Suc g)),
     random_uniform = (\<lambda>a b g. (a, Suc g)),
     random_randint = (\<lambda>a b g. (a, Suc g)),
     random_indice = (\<lambda>n g. (0, Suc g)),
     arrondi = (\<lambda>n x. x),
     fake_city = (\<lambda>f. (''Paris'', Suc f)),
     fake_postcode = (\<lambda>f. (''75001'', Suc f)),
     fake_ipv4 = (\<lambda>f. (''192.0.2.1'', Suc f)),
     fake_date_time_between = (\<lambda>t f. (chiffres (nat (t - 2592000)), Suc f)),
     fake_date_between = (\<lambda>t f. (chiffres (nat (t - 63072000)), Suc f))\<rparr>"

section \<open>Properties of the Cleaner\<close>

lemma to_datetime_length: "to_datetime parse xs = Inr ys \<Longrightarrow> length ys = length xs"
  by (induction xs arbitrary: ys) (auto split: sum.splits)

lemma affecter_montant:
  "t \<in> set (affecter_date_heure ts ds) \<Longrightarrow> \<exists>u \<in> set ts. montant t = montant u"
  unfolding affecter_date_heure_def by (auto dest: set_zip_leftD)

text \<open>
  C4. Every row of the cleaned transaction table has an amount, and it is not negative:
  rows with a negative (or missing) amount are removed at line 292.
\<close>

theorem montants_non_negatifs:
  assumes "nettoyer_transactions parse ts = Inr cs" and "t \<in> set cs"
  shows "\<exists>m. montant t = Some m \<and> 0 \<le> m"
proof -
  from assms obtain t5 ds where cs: "cs = affecter_date_heure t5 ds"
    and t5: "\<forall>u \<in> set t5. montant_positif u"
    unfolding nettoyer_transactions_def Let_def by (auto split: sum.splits)
  from assms(2) cs obtain u where "u \<in> set t5" "montant t = montant u"
    using affecter_montant by blast
  with t5 show ?thesis
    unfolding montant_positif_def by (auto split: option.splits)
qed

lemmas nettoyage_defs =
  nettoyer_transactions_def imputer_coordonnees_def imputer_ville_def
  imputer_merchant_category_def mode_cat_def mode_serie_def mediane_def valeurs_def isna_def
  fillna_def drop_duplicates_def montant_positif_def affecter_date_heure_def
  convertir_cellule_def ligne_exemple_def parse_exemple_def Let_def

lemma nettoyer_transactions_exemple:
  "nettoyer_transactions parse_exemple
     [ligne_exemple\<lparr>montant := Some (- 5)\<rparr>,
      ligne_exemple\<lparr>transaction_id := Some ''TRX_00000001''\<rparr>]
   = Inr [ligne_exemple\<lparr>transaction_id := Some ''TRX_00000001'',
                        date_heure := Some (Instant 19)\<rparr>]"
  by (simp add: nettoyage_defs)

theorem montants_non_negatifs_witness:
  "nettoyer_transactions parse_exemple
     [ligne_exemple\<lparr>montant := Some (- 5)\<rparr>,
      ligne_exemple\<lparr>transaction_id := Some ''TRX_00000001''\<rparr>]
   = Inr [ligne_exemple\<lparr>transaction_id := Some ''TRX_00000001'',
                        date_heure := Some (Instant 19)\<rparr>]
   \<and> (\<exists>m. montant (ligne_exemple\<lparr>transaction_id := Some ''TRX_00000001'',
                                   date_heure := Some (Instant 19)\<rparr>) = Some m \<and> 0 \<le> m)"
  using montants_non_negatifs [of parse_exemple
      "[ligne_exemple\<lparr>montant := Some (- 5)\<rparr>,
        ligne_exemple\<lparr>transaction_id := Some ''TRX_00000001''\<rparr>]"
      "[ligne_exemple\<lparr>transaction_id := Some ''TRX_00000001'',
                      date_heure := Some (Instant 19)\<rparr>]"
      "ligne_exemple\<lparr>transaction_id := Some ''TRX_00000001'',
                    date_heure := Some (Instant 19)\<rparr>"]
    nettoyer_transactions_exemple
  by simp

section \<open>Properties of the Aggregator\<close>

lemma filter_cle_distinct:
  "distinct (map f xs) \<Longrightarrow> length (filter (\<lambda>x. f x = k) xs) \<le> 1"
  by (induction xs) (auto simp: filter_empty_conv image_iff)

lemma merge_left_length:
  assumes "distinct (map cle_d ds)"
  shows "length (merge_left cle_g cle_d joindre gs ds) = length gs"
proof (induction gs)
  case Nil
  show ?case by (simp add: merge_left_def)
next
  case (Cons g gs)
  have "length (filter (\<lambda>d. cle_d d = cle_g g) ds) \<le> 1"
    using assms by (rule filter_cle_distinct)
  then have "length (let ms = filter (\<lambda>d. cle_d d = cle_g g) ds in
                if ms = [] then [joindre g None] else map (\<lambda>d. joindre g (Some d)) ms) = 1"
    by (cases "filter (\<lambda>d. cle_d d = cle_g g) ds") (auto simp: Let_def)
  with Cons show ?case by (simp add: merge_left_def)
qed

lemma agreger_logs_cles:
  "map client_id_f (agreger_logs ls) = sort (remdups (valeurs (map client_id_l ls)))"
  by (simp add: agreger_logs_def comp_def Let_def)

lemma agreger_logs_distinct: "distinct (map client_id_f (agreger_logs ls))"
  by (simp add: agreger_logs_cles)

lemma agreger_logs_distinct_some:
  "distinct (map (\<lambda>f. Some (client_id_f f)) (agreger_logs ls))"
proof -
  have "map (\<lambda>f. Some (client_id_f f)) (agreger_logs ls)
        = map Some (map client_id_f (agreger_logs ls))"
    by simp
  then show ?thesis
    using agreger_logs_distinct [of ls] by (simp only: distinct_map) (auto simp: inj_on_def)
qed

text \<open>
  C1. When no client identifier (a missing one included) occurs twice in the client table,
  the joined dataset has as many rows as the cleaned transaction table. The feature table
  built from the logs never has a key twice, whatever the logs are.
\<close>

theorem agreger_conserve_lignes:
  assumes "distinct (map client_id_c df_clients)"
  shows "distinct (map client_id_f (agreger_logs df_logs)) \<and>
         length (agreger_donnees df_trans df_clients df_logs) = length df_trans"
  using assms
  by (simp add: agreger_donnees_def Let_def merge_left_length agreger_logs_distinct_some
      agreger_logs_distinct)

theorem agreger_conserve_lignes_witness:
  "distinct (map client_id_c [client_exemple]) \<and>
   length (agreger_donnees [ligne_exemple, ligne_exemple\<lparr>client_id := Some ''CLIENT_000002''\<rparr>]
             [client_exemple] [log_exemple, log_exemple]) = 2"
  using agreger_conserve_lignes [of "[client_exemple]" "[log_exemple, log_exemple]"
          "[ligne_exemple, ligne_exemple\<lparr>client_id := Some ''CLIENT_000002''\<rparr>]"]
  by simp

section \<open>Properties of the Cleaner on clients\<close>

text \<open>
  C9. Cleaning the client table writes the credit-score column only: with that column
  blanked, the cleaned table and the raw table are the same rows, and the column of the
  last fraud date is the same, so a missing date stays missing.
\<close>

theorem nettoyer_clients_cadre:
  fixes cs :: "client list"
  shows "map (\<lambda>c. c\<lparr>score_credit := None\<rparr>) (nettoyer_clients cs)
           = map (\<lambda>c. c\<lparr>score_credit := None\<rparr>) cs
       \<and> map date_derniere_fraude (nettoyer_clients cs) = map date_derniere_fraude cs"
  by (simp add: nettoyer_clients_def Let_def comp_def)

section \<open>Where the code departs from the specification\<close>

text \<open>
  C3. A column whose cells are all missing has the median NaN, and filling with NaN fills
  nothing: after cleaning one transaction without coordinates, and one client without a
  credit score, the three columns still have one missing cell each.
\<close>

theorem coordonnees_restent_manquantes:
  "nettoyer_transactions parse_exemple [ligne_sans_ville]
     = Inr [ligne_sans_ville\<lparr>ville := Some ''VILLE_INCONNUE'',
                            date_heure := Some (Instant 19)\<rparr>]
   \<and> compter_na (map latitude [ligne_sans_ville\<lparr>ville := Some ''VILLE_INCONNUE'',
                                                 date_heure := Some (Instant 19)\<rparr>]) = 1
   \<and> compter_na (map longitude [ligne_sans_ville\<lparr>ville := Some ''VILLE_INCONNUE'',
                                                  date_heure := Some (Instant 19)\<rparr>]) = 1
   \<and> compter_na (map score_credit (nettoyer_clients [client_exemple\<lparr>score_credit := None\<rparr>])) = 1"
  by (simp add: nettoyage_defs ligne_sans_ville_def compter_na_def nettoyer_clients_def
      client_exemple_def)

text \<open>
  C7. The anomaly count \<^verbatim>\<open>coordonnees_invalides\<close> reads the latitude only: a row with the
  longitude 200 is outside the valid ranges and is not counted.
\<close>

theorem longitude_non_controlee:
  "map_of (anomalies (analyser_qualite_donnees
             (Transactions [ligne_exemple\<lparr>longitude := Some 200\<rparr>]) ''transactions''))
      ''coordonnees_invalides'' = Some 0
   \<and> length (filter coordonnees_hors_plage [ligne_exemple\<lparr>longitude := Some 200\<rparr>]) = 1"
  by (simp add: analyser_qualite_donnees_def anomalies_de_def serie_montant_def
      serie_latitude_def compter_def coordonnees_hors_plage_def ligne_exemple_def)

text \<open>
  C2. The loader sees that two rows were written and one was read back, prints the
  error, goes on to the next table, and records the status \<^verbatim>\<open>OK\<close> for both tables.
\<close>

theorem statut_ok_malgre_ecart:
  "charger_donnees relire_tronque True
     [(''transactions'',
       Transactions [ligne_exemple, ligne_exemple\<lparr>transaction_id := Some ''TRX_00000001''\<rparr>]),
      (''clients'', Clients [client_exemple])]
   = Inr ([(''transactions'',
            \<lparr>lignes = 2, colonnes = 15,
             fichier = ''data/processed/transactions_clean.csv'', status = ''OK''\<rparr>),
           (''clients'',
            \<lparr>lignes = 1, colonnes = 9,
             fichier = ''data/processed/clients_clean.csv'', status = ''OK''\<rparr>)],
          [(''transactions'', Erreur_integrite 2 1), (''clients'', Integrite_verifiee 1 1)])"
  by (simp add: charger_donnees_def relire_tronque_def chemin_sortie_def nb_lignes_def
      nb_colonnes_def na_colonnes_def na_transaction_def na_attributs_def dict_set_def Let_def)

section \<open>Mode imputation of the merchant category\<close>

lemma premier_rencontre_exemple: "mode_premier_rencontre (map merchant_category lignes_ex_aequo) = ''RESTAURANT''"
  by (simp add: mode_premier_rencontre_def lignes_ex_aequo_def ligne_exemple_def valeurs_def isna_def Let_def)

lemma mode_cat_exemple: "mode_cat lignes_ex_aequo = ''ESSENCE''"
  by (simp add: mode_cat_def mode_serie_def lignes_ex_aequo_def ligne_exemple_def valeurs_def isna_def Let_def)

text \<open>
  C6, as stated, fails: with the categories RESTAURANT, ESSENCE and a missing one, the
  first met among the most frequent is RESTAURANT, and the Cleaner fills with ESSENCE.
\<close>

theorem premier_rencontre_counterexample:
  "map merchant_category (imputer_merchant_category lignes_ex_aequo)
   \<noteq> map (fillna (Some (mode_premier_rencontre (map merchant_category lignes_ex_aequo))))
         (map merchant_category lignes_ex_aequo)"
  by (simp add: imputer_merchant_category_def premier_rencontre_exemple mode_cat_exemple Let_def) (simp add: lignes_ex_aequo_def ligne_exemple_def fillna_def)

lemma fold_max_Max: "fold max xs (a::nat) = Max (set (a # xs))"
  by (simp only: Max.set_eq_fold)

lemma sorted_hd_le: "sorted xs \<Longrightarrow> x \<in> set xs \<Longrightarrow> hd xs \<le> x"
  by (cases xs) auto

lemma mode_serie_set:
  "set (mode_serie col) = {v \<in> set (valeurs col).
      count_list (valeurs col) v = Max (insert 0 (count_list (valeurs col) ` set (valeurs col)))}"
  by (auto simp: mode_serie_def Let_def fold_max_Max)

lemma mode_serie_sorted: "sorted (mode_serie col)"
  by (simp add: mode_serie_def Let_def)

lemma max_count_atteint:
  assumes "vs \<noteq> []"
  shows "\<exists>v \<in> set vs. count_list vs v = Max (insert 0 (count_list vs ` set vs))"
proof -
  let ?S = "insert 0 (count_list vs ` set vs)"
  have fin: "finite ?S" by simp
  have "Max ?S \<in> ?S" by (rule Max_in) (use fin in auto)
  moreover have "Max ?S \<noteq> 0"
  proof -
    from assms obtain v where v: "v \<in> set vs" by (cases vs) auto
    then have "count_list vs v \<noteq> 0" by (simp only: count_list_0_iff) simp
    then have "0 < count_list vs v" by simp
    moreover have "count_list vs v \<le> Max ?S" using v fin by (intro Max_ge) auto
    ultimately show ?thesis by simp
  qed
  ultimately show ?thesis by auto
qed

lemma mode_serie_vide: "mode_serie col = [] \<longleftrightarrow> valeurs col = []"
proof
  assume "mode_serie col = []"
  then have "set (mode_serie col) = {}" by simp
  then show "valeurs col = []"
    using max_count_atteint [of "valeurs col"] unfolding mode_serie_set by blast
next
  assume "valeurs col = []"
  then show "mode_serie col = []" by (simp add: mode_serie_def Let_def)
qed

text \<open>
  C6, amended. The Cleaner fills every missing merchant category with one label. When every
  cell is missing the label is \<^verbatim>\<open>AUTRE\<close>. Otherwise it is a value of the column that no other
  value outnumbers, and among the values as frequent as it, it is the least in the order of
  strings: \<^verbatim>\<open>Series.mode()\<close> returns the modes sorted, and the code takes the first.
\<close>

theorem mode_cat_plus_petit:
  "map merchant_category (imputer_merchant_category ts)
     = map (fillna (Some (mode_cat ts))) (map merchant_category ts)
   \<and> (valeurs (map merchant_category ts) = [] \<longrightarrow> mode_cat ts = ''AUTRE'')
   \<and> (valeurs (map merchant_category ts) \<noteq> [] \<longrightarrow>
        mode_cat ts \<in> set (valeurs (map merchant_category ts))
        \<and> (\<forall>v \<in> set (valeurs (map merchant_category ts)).
              count_list (valeurs (map merchant_category ts)) v
                \<le> count_list (valeurs (map merchant_category ts)) (mode_cat ts))
        \<and> (\<forall>v \<in> set (valeurs (map merchant_category ts)).
              count_list (valeurs (map merchant_category ts)) v
                = count_list (valeurs (map merchant_category ts)) (mode_cat ts)
              \<longrightarrow> mode_cat ts \<le> v))"
proof (intro conjI impI)
  show "map merchant_category (imputer_merchant_category ts)
     = map (fillna (Some (mode_cat ts))) (map merchant_category ts)"
    by (simp add: imputer_merchant_category_def Let_def comp_def)
next
  assume "valeurs (map merchant_category ts) = []"
  then show "mode_cat ts = ''AUTRE''"
    by (simp add: mode_cat_def Let_def mode_serie_vide)
next
  let ?col = "map merchant_category ts"
  let ?vs = "valeurs ?col"
  let ?M = "Max (insert 0 (count_list ?vs ` set ?vs))"
  assume ne: "?vs \<noteq> []"
  then have mne: "mode_serie ?col \<noteq> []" by (simp add: mode_serie_vide)
  then have mc: "mode_cat ts = hd (mode_serie ?col)" by (simp add: mode_cat_def Let_def)
  from mne have "hd (mode_serie ?col) \<in> set (mode_serie ?col)" by simp
  with mc have in_modes: "mode_cat ts \<in> set (mode_serie ?col)" by simp
  then have mem: "mode_cat ts \<in> set ?vs" and cnt: "count_list ?vs (mode_cat ts) = ?M"
    unfolding mode_serie_set by auto
  show "mode_cat ts \<in> set ?vs" by (rule mem)
  show "\<forall>v \<in> set ?vs. count_list ?vs v \<le> count_list ?vs (mode_cat ts)"
  proof
    fix v assume "v \<in> set ?vs"
    then have "count_list ?vs v \<le> ?M" by (intro Max_ge) auto
    with cnt show "count_list ?vs v \<le> count_list ?vs (mode_cat ts)" by simp
  qed
  show "\<forall>v \<in> set ?vs. count_list ?vs v = count_list ?vs (mode_cat ts) \<longrightarrow> mode_cat ts \<le> v"
  proof (intro ballI impI)
    fix v assume "v \<in> set ?vs" and "count_list ?vs v = count_list ?vs (mode_cat ts)"
    with cnt have "v \<in> set (mode_serie ?col)" unfolding mode_serie_set by simp
    then show "mode_cat ts \<le> v"
      unfolding mc using mode_serie_sorted by (rule sorted_hd_le [rotated])
  qed
qed

theorem mode_cat_plus_petit_witness:
  "valeurs (map merchant_category lignes_ex_aequo) \<noteq> []
   \<and> ''RESTAURANT'' \<in> set (valeurs (map merchant_category lignes_ex_aequo))
   \<and> count_list (valeurs (map merchant_category lignes_ex_aequo)) ''RESTAURANT''
       = count_list (valeurs (map merchant_category lignes_ex_aequo)) (mode_cat lignes_ex_aequo)
   \<and> mode_cat lignes_ex_aequo \<le> ''RESTAURANT''
   \<and> mode_cat lignes_ex_aequo = ''ESSENCE''
   \<and> valeurs (map merchant_category [ligne_exemple\<lparr>merchant_category := None\<rparr>]) = []
   \<and> mode_cat [ligne_exemple\<lparr>merchant_category := None\<rparr>] = ''AUTRE''"
proof -
  have vs: "valeurs (map merchant_category lignes_ex_aequo) = [''RESTAURANT'', ''ESSENCE'']"
    by (simp add: lignes_ex_aequo_def ligne_exemple_def valeurs_def isna_def)
  have vide: "valeurs (map merchant_category [ligne_exemple\<lparr>merchant_category := None\<rparr>]) = []"
    by (simp add: valeurs_def isna_def)
  have m: "mode_cat lignes_ex_aequo = ''ESSENCE''"
    by (simp add: mode_cat_def mode_serie_def Let_def vs)
  show ?thesis
    using mode_cat_plus_petit [of lignes_ex_aequo]
      mode_cat_plus_petit [of "[ligne_exemple\<lparr>merchant_category := None\<rparr>]"]
    unfolding vs vide by (simp add: m)
qed

section \<open>The Cleaner and the extracted frames\<close>

lemma sources_intactes_refl: "sources_intactes s s"
  by (simp add: sources_intactes_def)

lemma sources_intactes_trans:
  assumes "sources_intactes s s'" and "sources_intactes s' s''"
  shows "sources_intactes s s''"
proof -
  from assms(1) have a: "take (length (fst s)) (fst s') = fst s"
    and pa: "data_sources (snd s') = data_sources (snd s)"
    by (simp_all add: sources_intactes_def)
  from assms(2) have b: "take (length (fst s')) (fst s'') = fst s'"
    and pb: "data_sources (snd s'') = data_sources (snd s')"
    by (simp_all add: sources_intactes_def)
  have "length (take (length (fst s)) (fst s')) = length (fst s)"
    by (simp only: a)
  then have le: "length (fst s) \<le> length (fst s')"
    by simp
  have "take (length (fst s)) (fst s'') = take (length (fst s)) (take (length (fst s')) (fst s''))"
    using le by (simp add: min_def)
  also have "\<dots> = fst s" using a b by simp
  finally show ?thesis using pa pb by (simp add: sources_intactes_def)
qed

lemma modifier_fin: "modifier (length h) f (h @ [x]) = h @ [f x]"
  by (simp add: modifier_def)

lemma section_transactions_intacte:
  "sources_intactes s (etat_final (nettoyer_section_transactions parse s))"
  by (cases s) (auto simp: sources_intactes_def etat_final_def nettoyer_section_transactions_def Let_def
      modifier_fin nth_append split: sum.splits)

lemma section_clients_intacte:
  "sources_intactes s (etat_final (nettoyer_section_clients s))"
  by (cases s) (auto simp: sources_intactes_def etat_final_def nettoyer_section_clients_def Let_def
      modifier_fin nth_append split: sum.splits)

lemma section_logs_intacte:
  "sources_intactes s (etat_final (nettoyer_section_logs parse s))"
  by (cases s) (auto simp: sources_intactes_def etat_final_def nettoyer_section_logs_def Let_def
      modifier_fin nth_append split: sum.splits)

lemma puis_intacte:
  assumes "sources_intactes s (etat_final r)" and "\<And>s'. sources_intactes s' (etat_final (f s'))"
  shows "sources_intactes s (etat_final (puis r f))"
proof (cases r)
  case (Inl x)
  with assms(1) show ?thesis by (simp add: puis_def etat_final_def)
next
  case (Inr s')
  with assms(1) have "sources_intactes s s'" by (simp add: etat_final_def)
  moreover have "sources_intactes s' (etat_final (f s'))" by (rule assms(2))
  ultimately have "sources_intactes s (etat_final (f s'))" by (rule sources_intactes_trans)
  with Inr show ?thesis by (simp add: puis_def)
qed

text \<open>
  C10. The Cleaner never writes to the extracted data: after \<^verbatim>\<open>nettoyer_donnees\<close>, whether it
  returns or raises, every frame object that existed before the run holds the rows it held,
  and \<^verbatim>\<open>data_sources\<close> refers to the same objects. Each section works on the copy made at
  lines 254, 313 and 342, a new object at the end of the store.
\<close>

theorem nettoyer_donnees_sources_intactes:
  "take (length (fst s)) (fst (etat_final (nettoyer_donnees parse s))) = fst s
   \<and> data_sources (snd (etat_final (nettoyer_donnees parse s))) = data_sources (snd s)"
proof -
  have "sources_intactes s (etat_final (nettoyer_donnees parse s))"
    unfolding nettoyer_donnees_def
    by (intro puis_intacte section_transactions_intacte section_clients_intacte section_logs_intacte)
  then show ?thesis by (simp add: sources_intactes_def)
qed

section \<open>Idempotence of the Cleaner\<close>

lemma valeurs_vide: "valeurs col = [] \<longleftrightarrow> (\<forall>x \<in> set col. x = None)"
  by (auto simp: valeurs_def isna_def filter_empty_conv)

lemma sort_vide: "sort xs = [] \<longleftrightarrow> xs = []"
  by (metis length_0_conv length_sort)

lemma mediane_None: "mediane col = None \<longleftrightarrow> valeurs col = []"
  by (simp add: mediane_def Let_def sort_vide del: not_None_eq)

lemma fillna_Some [simp]: "fillna v (Some y) = Some y"
  by (simp add: fillna_def)

lemma fillna_None [simp]: "fillna v None = v"
  by (simp add: fillna_def)

lemma fillna_mediane_noop:
  assumes "(\<forall>x \<in> set col. x \<noteq> None) \<or> (\<forall>x \<in> set col. x = None)" and "x \<in> set col"
  shows "fillna (mediane col) x = x"
proof (cases x)
  case None
  with assms have "\<forall>x \<in> set col. x = None" by auto
  then have "mediane col = None" by (simp add: mediane_None valeurs_vide)
  with None show ?thesis by simp
next
  case (Some y)
  then show ?thesis by simp
qed

lemma fillna_mediane_tout_ou_rien:
  "(\<forall>x \<in> set col. fillna (mediane col) x \<noteq> None) \<or> (\<forall>x \<in> set col. fillna (mediane col) x = None)"
proof (cases "mediane col")
  case None
  then have "\<forall>x \<in> set col. x = None" by (simp add: mediane_None valeurs_vide)
  with None have "\<forall>x \<in> set col. fillna (mediane col) x = None" by (auto simp: fillna_def)
  then show ?thesis by (rule disjI2)
next
  case (Some m)
  then show ?thesis by (auto simp: fillna_def split: option.splits)
qed

lemma drop_vus_subset: "set (drop_vus cle vus xs) \<subseteq> set xs"
  by (induction xs arbitrary: vus) auto

lemma drop_vus_cles: "x \<in> set (drop_vus cle vus xs) \<Longrightarrow> cle x \<notin> set vus"
  by (induction xs arbitrary: vus) (fastforce split: if_splits)+

lemma drop_vus_distinct: "distinct (map cle (drop_vus cle vus xs))"
proof (induction xs arbitrary: vus)
  case Nil
  show ?case by simp
next
  case (Cons x xs)
  show ?case
  proof (cases "cle x \<in> set vus")
    case True
    with Cons show ?thesis by simp
  next
    case False
    have "cle x \<notin> cle ` set (drop_vus cle (cle x # vus) xs)"
      using drop_vus_cles [of _ cle "cle x # vus" xs] by fastforce
    with False Cons show ?thesis by simp
  qed
qed

lemma drop_vus_id:
  "distinct (map cle xs) \<Longrightarrow> cle ` set xs \<inter> set vus = {} \<Longrightarrow> drop_vus cle vus xs = xs"
  by (induction xs arbitrary: vus) auto

lemma drop_duplicates_distinct: "distinct (map cle (drop_duplicates cle xs))"
  by (simp add: drop_duplicates_def drop_vus_distinct)

lemma drop_duplicates_subset: "set (drop_duplicates cle xs) \<subseteq> set xs"
  by (simp add: drop_duplicates_def drop_vus_subset)

lemma drop_duplicates_id: "distinct (map cle xs) \<Longrightarrow> drop_duplicates cle xs = xs"
  by (simp add: drop_duplicates_def drop_vus_id)

lemma convertir_cellule_idem:
  "convertir_cellule parse x = Inr y \<Longrightarrow>
     convertir_cellule parse y = Inr y \<and> (\<forall>s. y \<noteq> Some (Texte s))"
  by (auto simp: convertir_cellule_def split: option.splits horodatage.splits)

lemma to_datetime_idem:
  "to_datetime parse xs = Inr ys \<Longrightarrow>
     to_datetime parse ys = Inr ys \<and> (\<forall>y \<in> set ys. \<forall>s. y \<noteq> Some (Texte s))"
proof (induction xs arbitrary: ys)
  case Nil
  then show ?case by simp
next
  case (Cons x xs)
  from Cons.prems obtain y ys' where y: "convertir_cellule parse x = Inr y"
    and ys': "to_datetime parse xs = Inr ys'" and ys: "ys = y # ys'"
    by (auto split: sum.splits)
  from convertir_cellule_idem [OF y] Cons.IH [OF ys'] ys show ?case by simp
qed

lemma to_datetime_converti:
  "\<forall>x \<in> set xs. \<forall>s. x \<noteq> Some (Texte s) \<Longrightarrow> to_datetime parse xs = Inr xs"
proof (induction xs)
  case Nil
  show ?case by simp
next
  case (Cons x xs)
  then have "convertir_cellule parse x = Inr x"
    by (auto simp: convertir_cellule_def split: option.splits horodatage.splits)
  with Cons show ?case by simp
qed

lemma affecter_date_heure_id: "affecter_date_heure ts (map date_heure ts) = ts"
  unfolding affecter_date_heure_def by (induction ts) auto

lemma affecter_date_heure_nth:
  assumes "length ds = length ts" and "i < length ts"
  shows "affecter_date_heure ts ds ! i = (ts ! i)\<lparr>date_heure := ds ! i\<rparr>"
  using assms unfolding affecter_date_heure_def by simp

lemma affecter_date_heure_elem:
  assumes "t \<in> set (affecter_date_heure ts ds)"
  shows "\<exists>u \<in> set ts. \<exists>d \<in> set ds. t = u\<lparr>date_heure := d\<rparr>"
proof -
  from assms obtain u d where ud: "(u, d) \<in> set (zip ts ds)" and t: "t = u\<lparr>date_heure := d\<rparr>"
    unfolding affecter_date_heure_def by auto
  from ud have "u \<in> set ts" "d \<in> set ds"
    by (auto dest: set_zip_leftD set_zip_rightD)
  with t show ?thesis by blast
qed

lemma affecter_date_heure_ids:
  assumes "length ts = length ds"
  shows "map transaction_id (affecter_date_heure ts ds) = map transaction_id ts"
  using assms unfolding affecter_date_heure_def
  by (induction ts ds rule: list_induct2) auto

lemma fillna_present: "x \<noteq> None \<Longrightarrow> fillna v x = x"
  by (cases x) simp_all

lemma propre_etapes:
  assumes "propre ts"
  shows "imputer_coordonnees ts = ts" and "imputer_ville ts = ts"
    and "imputer_merchant_category ts = ts" and "drop_duplicates transaction_id ts = ts"
    and "filter montant_positif ts = ts" and "to_datetime parse (map date_heure ts) = Inr (map date_heure ts)"
proof -
  from assms have lat: "(\<forall>x \<in> set (map latitude ts). x \<noteq> None) \<or> (\<forall>x \<in> set (map latitude ts). x = None)"
    and lon: "(\<forall>x \<in> set (map longitude ts). x \<noteq> None) \<or> (\<forall>x \<in> set (map longitude ts). x = None)"
    and champs: "\<forall>t \<in> set ts. ville t \<noteq> None \<and> merchant_category t \<noteq> None \<and> montant_positif t \<and>
                     (\<forall>s. date_heure t \<noteq> Some (Texte s))"
    and ids: "distinct (map transaction_id ts)"
    unfolding propre_def by simp_all
  have a: "map (\<lambda>t. t\<lparr>latitude := fillna (mediane (map latitude ts)) (latitude t)\<rparr>) ts = ts"
    by (rule map_idI) (simp add: fillna_mediane_noop [OF lat])
  have b: "map (\<lambda>t. t\<lparr>longitude := fillna (mediane (map longitude ts)) (longitude t)\<rparr>) ts = ts"
    by (rule map_idI) (simp add: fillna_mediane_noop [OF lon])
  show "imputer_coordonnees ts = ts"
    unfolding imputer_coordonnees_def Let_def by (simp only: a b)
  show "imputer_ville ts = ts"
    unfolding imputer_ville_def by (rule map_idI) (simp add: champs fillna_present)
  show "imputer_merchant_category ts = ts"
    unfolding imputer_merchant_category_def Let_def
    by (rule map_idI) (simp add: champs fillna_present)
  show "drop_duplicates transaction_id ts = ts"
    using ids by (rule drop_duplicates_id)
  show "filter montant_positif ts = ts"
    using champs by (simp add: filter_id_conv)
  show "to_datetime parse (map date_heure ts) = Inr (map date_heure ts)"
    by (rule to_datetime_converti) (use champs in auto)
qed

lemma propre_point_fixe:
  assumes "propre ts"
  shows "nettoyer_transactions parse ts = Inr ts"
  unfolding nettoyer_transactions_def Let_def
  by (simp add: propre_etapes [OF assms] affecter_date_heure_id)

lemma nettoyer_transactions_propre:
  assumes "nettoyer_transactions parse ts = Inr cs"
  shows "propre cs"
proof -
  define t1 where "t1 = imputer_coordonnees ts"
  define t3 where "t3 = imputer_merchant_category (imputer_ville t1)"
  define t5 where "t5 = filter montant_positif (drop_duplicates transaction_id t3)"
  from assms obtain ds where ds: "to_datetime parse (map date_heure t5) = Inr ds"
    and cs: "cs = affecter_date_heure t5 ds"
    unfolding nettoyer_transactions_def Let_def t1_def t3_def t5_def
    by (auto split: sum.splits)
  have len: "length t5 = length ds"
    using to_datetime_length [OF ds] by simp
  have lat1: "(\<forall>t \<in> set t1. latitude t \<noteq> None) \<or> (\<forall>t \<in> set t1. latitude t = None)"
    using fillna_mediane_tout_ou_rien [of "map latitude ts"]
    unfolding t1_def imputer_coordonnees_def Let_def by simp
  have lon1: "(\<forall>t \<in> set t1. longitude t \<noteq> None) \<or> (\<forall>t \<in> set t1. longitude t = None)"
    using fillna_mediane_tout_ou_rien
      [of "map longitude (map (\<lambda>t. t\<lparr>latitude := fillna (mediane (map latitude ts)) (latitude t)\<rparr>) ts)"]
    unfolding t1_def imputer_coordonnees_def Let_def by simp
  have t3_t1: "\<forall>t \<in> set t3. \<exists>u \<in> set t1. latitude t = latitude u \<and> longitude t = longitude u"
    unfolding t3_def imputer_merchant_category_def imputer_ville_def Let_def by auto
  have t3_champs: "\<forall>t \<in> set t3. ville t \<noteq> None \<and> merchant_category t \<noteq> None"
    unfolding t3_def imputer_merchant_category_def imputer_ville_def Let_def
    by (auto simp: fillna_def split: option.splits)
  have t5_t3: "set t5 \<subseteq> set t3"
    unfolding t5_def using drop_duplicates_subset [of transaction_id t3] by auto
  have t5_montant: "\<forall>t \<in> set t5. montant_positif t"
    unfolding t5_def by simp
  have t5_ids: "distinct (map transaction_id t5)"
    unfolding t5_def by (intro distinct_map_filter drop_duplicates_distinct)
  have ds_conv: "\<forall>d \<in> set ds. \<forall>s. d \<noteq> Some (Texte s)"
    using to_datetime_idem [OF ds] by simp
  have cs_t5: "\<forall>t \<in> set cs. \<exists>u \<in> set t5. \<exists>d \<in> set ds. t = u\<lparr>date_heure := d\<rparr>"
    unfolding cs using affecter_date_heure_elem by blast
  have lat3: "(\<forall>t \<in> set t3. latitude t \<noteq> None) \<or> (\<forall>t \<in> set t3. latitude t = None)"
    using lat1 t3_t1 by metis
  have lon3: "(\<forall>t \<in> set t3. longitude t \<noteq> None) \<or> (\<forall>t \<in> set t3. longitude t = None)"
    using lon1 t3_t1 by metis
  have cs_t3: "\<forall>t \<in> set cs. \<exists>u \<in> set t3. latitude t = latitude u \<and> longitude t = longitude u
                 \<and> ville t = ville u \<and> merchant_category t = merchant_category u"
  proof
    fix t assume "t \<in> set cs"
    with cs_t5 obtain u d where "u \<in> set t5" "t = u\<lparr>date_heure := d\<rparr>" by blast
    with t5_t3 show "\<exists>u \<in> set t3. latitude t = latitude u \<and> longitude t = longitude u
                 \<and> ville t = ville u \<and> merchant_category t = merchant_category u"
      by (intro bexI [of _ u]) auto
  qed
  have c1: "(\<forall>t \<in> set cs. latitude t \<noteq> None) \<or> (\<forall>t \<in> set cs. latitude t = None)"
    using lat3 cs_t3 by metis
  have c2: "(\<forall>t \<in> set cs. longitude t \<noteq> None) \<or> (\<forall>t \<in> set cs. longitude t = None)"
    using lon3 cs_t3 by metis
  have c3: "\<forall>t \<in> set cs. ville t \<noteq> None \<and> merchant_category t \<noteq> None \<and> montant_positif t \<and>
                     (\<forall>s. date_heure t \<noteq> Some (Texte s))"
  proof
    fix t assume t: "t \<in> set cs"
    with cs_t5 obtain u d where u: "u \<in> set t5" and d: "d \<in> set ds" and tu: "t = u\<lparr>date_heure := d\<rparr>"
      by blast
    from u t5_t3 t3_champs have "ville u \<noteq> None \<and> merchant_category u \<noteq> None" by blast
    moreover from u t5_montant have "montant_positif u" by blast
    moreover from d ds_conv have "\<forall>s. d \<noteq> Some (Texte s)" by blast
    ultimately show "ville t \<noteq> None \<and> merchant_category t \<noteq> None \<and> montant_positif t \<and>
                     (\<forall>s. date_heure t \<noteq> Some (Texte s))"
      unfolding tu by (simp add: montant_positif_def)
  qed
  have c4: "distinct (map transaction_id cs)"
    unfolding cs using t5_ids by (simp add: affecter_date_heure_ids [OF len])
  show ?thesis
    unfolding propre_def using c1 c2 c3 c4 by blast
qed

lemma nettoyer_clients_idem: "nettoyer_clients (nettoyer_clients cs) = nettoyer_clients cs"
proof -
  let ?col = "map score_credit cs"
  let ?cs' = "nettoyer_clients cs"
  have col': "map score_credit ?cs' = map (fillna (mediane ?col)) ?col"
    by (simp add: nettoyer_clients_def Let_def comp_def)
  have tor: "(\<forall>x \<in> set (map score_credit ?cs'). x \<noteq> None) \<or> (\<forall>x \<in> set (map score_credit ?cs'). x = None)"
    unfolding col' using fillna_mediane_tout_ou_rien [of ?col] by simp
  have "map (\<lambda>c. c\<lparr>score_credit := fillna (mediane (map score_credit ?cs')) (score_credit c)\<rparr>) ?cs' = ?cs'"
    by (rule map_idI) (simp add: fillna_mediane_noop [OF tor])
  then show ?thesis
    by (simp add: nettoyer_clients_def [of "nettoyer_clients cs"] Let_def)
qed

lemma affecter_timestamp_id: "affecter_timestamp ls (map timestamp ls) = ls"
  unfolding affecter_timestamp_def by (induction ls) auto

lemma affecter_timestamp_elem:
  assumes "l \<in> set (affecter_timestamp ls ds)"
  shows "timestamp l \<in> set ds"
proof -
  from assms obtain u d where ud: "(u, d) \<in> set (zip ls ds)" and l: "l = u\<lparr>timestamp := d\<rparr>"
    unfolding affecter_timestamp_def by auto
  from ud have "d \<in> set ds" by (rule set_zip_rightD)
  with l show ?thesis by simp
qed

lemma nettoyer_logs_idem:
  assumes "nettoyer_logs parse ls = Inr ls'"
  shows "nettoyer_logs parse ls' = Inr ls'" and "drop_duplicates (\<lambda>l. l) ls' = ls'"
proof -
  from assms obtain ds where ds: "to_datetime parse (map timestamp ls) = Inr ds"
    and ls': "ls' = drop_duplicates (\<lambda>l. l) (affecter_timestamp ls ds)"
    unfolding nettoyer_logs_def by (auto split: sum.splits)
  have conv: "\<forall>d \<in> set ds. \<forall>s. d \<noteq> Some (Texte s)"
    using to_datetime_idem [OF ds] by simp
  have "\<forall>l \<in> set ls'. timestamp l \<in> set ds"
  proof
    fix l assume "l \<in> set ls'"
    then have "l \<in> set (affecter_timestamp ls ds)"
      unfolding ls' using drop_duplicates_subset [of "\<lambda>l. l" "affecter_timestamp ls ds"] by auto
    then show "timestamp l \<in> set ds" by (rule affecter_timestamp_elem)
  qed
  with conv have "\<forall>x \<in> set (map timestamp ls'). \<forall>s. x \<noteq> Some (Texte s)" by auto
  then have td: "to_datetime parse (map timestamp ls') = Inr (map timestamp ls')"
    by (rule to_datetime_converti)
  have "distinct (map (\<lambda>l. l) ls')"
    unfolding ls' by (rule drop_duplicates_distinct)
  then show dd: "drop_duplicates (\<lambda>l. l) ls' = ls'"
    by (rule drop_duplicates_id)
  show "nettoyer_logs parse ls' = Inr ls'"
    unfolding nettoyer_logs_def by (simp add: td affecter_timestamp_id dd)
qed

text \<open>
  C8. The Cleaner is idempotent. When a first run has cleaned the transactions and the logs
  without raising, a second run on the cleaned tables returns them unchanged: no step of
  the transaction section fills a cell or drops a row, cleaning the cleaned client table
  changes nothing, and no log row is dropped.
\<close>

theorem nettoyage_idempotent:
  fixes ts :: "transaction list" and cl :: "client list"
  assumes "nettoyer_transactions parse ts = Inr ts'" and "nettoyer_logs parse ls = Inr ls'"
  shows "nettoyer_transactions parse ts' = Inr ts'
       \<and> imputer_coordonnees ts' = ts' \<and> imputer_ville ts' = ts'
       \<and> imputer_merchant_category ts' = ts'
       \<and> drop_duplicates transaction_id ts' = ts' \<and> filter montant_positif ts' = ts'
       \<and> nettoyer_clients (nettoyer_clients cl) = nettoyer_clients cl
       \<and> nettoyer_logs parse ls' = Inr ls' \<and> drop_duplicates (\<lambda>l. l) ls' = ls'"
proof -
  have p: "propre ts'" using assms(1) by (rule nettoyer_transactions_propre)
  show ?thesis
    using propre_point_fixe [OF p, of parse] propre_etapes(1-5) [OF p]
      nettoyer_clients_idem [of cl] nettoyer_logs_idem [OF assms(2)]
    by simp
qed

lemma nettoyer_logs_exemple:
  "nettoyer_logs parse_exemple [log_exemple, log_exemple]
     = Inr [log_exemple\<lparr>timestamp := Some (Instant 19)\<rparr>]"
  by (simp add: nettoyer_logs_def affecter_timestamp_def convertir_cellule_def drop_duplicates_def
      log_exemple_def parse_exemple_def)

theorem nettoyage_idempotent_witness:
  "nettoyer_transactions parse_exemple
     [ligne_exemple\<lparr>montant := Some (- 5)\<rparr>,
      ligne_exemple\<lparr>transaction_id := Some ''TRX_00000001''\<rparr>]
     = Inr [ligne_exemple\<lparr>transaction_id := Some ''TRX_00000001'',
                          date_heure := Some (Instant 19)\<rparr>]
   \<and> nettoyer_logs parse_exemple [log_exemple, log_exemple]
     = Inr [log_exemple\<lparr>timestamp := Some (Instant 19)\<rparr>]
   \<and> nettoyer_transactions parse_exemple
       [ligne_exemple\<lparr>transaction_id := Some ''TRX_00000001'',
                      date_heure := Some (Instant 19)\<rparr>]
     = Inr [ligne_exemple\<lparr>transaction_id := Some ''TRX_00000001'',
                          date_heure := Some (Instant 19)\<rparr>]
   \<and> nettoyer_clients (nettoyer_clients [client_exemple\<lparr>score_credit := None\<rparr>, client_exemple])
     = nettoyer_clients [client_exemple\<lparr>score_credit := None\<rparr>, client_exemple]
   \<and> nettoyer_logs parse_exemple [log_exemple\<lparr>timestamp := Some (Instant 19)\<rparr>]
     = Inr [log_exemple\<lparr>timestamp := Some (Instant 19)\<rparr>]"
  using nettoyage_idempotent [OF nettoyer_transactions_exemple nettoyer_logs_exemple,
      of "[client_exemple\<lparr>score_credit := None\<rparr>, client_exemple]"]
    nettoyer_transactions_exemple nettoyer_logs_exemple
  by simp

section \<open>The Generator and the clock\<close>

lemma chiffres_0: "chiffres 0 = ''0''"
  by (simp add: chiffres.simps)

lemma chiffres_1: "chiffres (Suc 0) = ''1''"
  by (simp add: chiffres.simps)

lemma chiffres_numeral:
  "chiffres (numeral k) =
    (if (numeral k :: nat) < 10 then [''0123456789'' ! numeral k]
     else chiffres (numeral k div 10) @ [''0123456789'' ! (numeral k mod 10)])"
  by (rule chiffres.simps)

lemma replicate_numeral_Cons: "replicate (numeral k) x = x # replicate (pred_numeral k) x"
  by (simp add: numeral_eq_Suc)

lemmas generateur_defs = replicate_numeral_Cons
  generer_donnees_test_def generer_transaction_def generer_client_def generer_log_def
  random_choice_def bibliotheque_exemple_def drop_duplicates_def format_0d_def
  chiffres_0 chiffres_1 chiffres_numeral Let_def

lemma premiere_transaction:
  "fst (generer_transaction bibliotheque_exemple 1700000000 0 (0, 0))
   = ligne_exemple\<lparr>transaction_id := Some ''TRX_00000000'', montant := Some 5,
       date_heure := Some (Texte ''1697408000''), merchant_category := Some ''SUPERMARCHE'',
       latitude := Some 42, longitude := Some (- 4)\<rparr>"
  by (simp add: generateur_defs ligne_exemple_def)

text \<open>
  C5. Two runs of the Generator from the same seeded random sources and with the same
  transaction count, started a day apart, do not write the same collections: every date
  is drawn in a window that ends at the present time.
\<close>

theorem generateur_depend_de_l_horloge:
  "generer_donnees_test bibliotheque_exemple 1700000000 1 (0, 0)
   \<noteq> generer_donnees_test bibliotheque_exemple 1700086400 1 (0, 0)"
  by (simp add: generateur_defs upt_rec)

section \<open>A run of the Cleaner on the pipeline\<close>

lemma map_of_remplace:
  "map_of (map (\<lambda>(k', v'). if k' = k then (k, v) else (k', v')) d) x
   = (if x = k then (if k \<in> fst ` set d then Some v else None) else map_of d x)"
  by (induction d) (force simp: image_iff)+

lemma map_of_dict_set: "map_of (dict_set k v d) x = (if x = k then Some v else map_of d x)"
proof (cases "k \<in> fst ` set d")
  case True
  then show ?thesis by (simp add: dict_set_def map_of_remplace)
next
  case False
  then have "map_of d k = None" by (simp add: map_of_eq_None_iff)
  with False show ?thesis by (auto simp: dict_set_def map_add_def split: option.splits)
qed

lemma frame_de_source:
  assumes "frame_de h (data_sources p) nom_source = Some df"
  shows "\<exists>a. source h p nom_source = Inr a \<and> a < length h \<and> h ! a = df"
  using assms unfolding frame_de_def source_def by (auto split: option.splits if_splits)

lemma frame_de_prolonge:
  assumes "frame_de h d n = Some df" and "take (length h) h' = h" and "map_of d' n = map_of d n"
  shows "frame_de h' d' n = Some df"
proof -
  from assms(1) obtain a where a: "map_of d n = Some a" "a < length h" "h ! a = df"
    unfolding frame_de_def by (auto split: option.splits if_splits)
  have "length (take (length h) h') = length h" by (simp only: assms(2))
  then have le: "length h \<le> length h'" by simp
  have "h' ! a = take (length h) h' ! a" using a(2) by simp
  then have "h' ! a = df" using a(3) assms(2) by simp
  with a le assms(3) show ?thesis unfolding frame_de_def by simp
qed

lemma section_transactions_resultat:
  assumes "frame_de h (data_sources p) ''transactions'' = Some (Transactions ts)"
    and "nettoyer_transactions parse ts = Inr ts'"
  shows "\<exists>h1 p1. nettoyer_section_transactions parse (h, p) = Inr (h1, p1)
           \<and> frame_de h1 (cleaned_data p1) ''transactions'' = Some (Transactions ts')
           \<and> (\<forall>n. n \<noteq> ''transactions'' \<longrightarrow> map_of (cleaned_data p1) n = map_of (cleaned_data p) n)"
proof -
  from frame_de_source [OF assms(1)] obtain a where
    a: "source h p ''transactions'' = Inr a" "a < length h" "h ! a = Transactions ts" by blast
  define t4 where "t4 = drop_duplicates transaction_id
      (imputer_merchant_category (imputer_ville (imputer_coordonnees ts)))"
  from assms(2) obtain ds where ds: "to_datetime parse (map date_heure (filter montant_positif t4)) = Inr ds"
    and ts': "ts' = affecter_date_heure (filter montant_positif t4) ds"
    unfolding nettoyer_transactions_def Let_def t4_def by (auto split: sum.splits)
  show ?thesis
    unfolding nettoyer_section_transactions_def Let_def
    using a ds ts'
    by (simp add: modifier_fin nth_append coordonnees_en_place_def ville_en_place_def
        categorie_en_place_def doublons_en_place_def selection_montant_def
        date_heure_en_place_def t4_def [symmetric] frame_de_def map_of_dict_set)
qed

lemma section_clients_resultat:
  assumes "frame_de h (data_sources p) ''clients'' = Some (Clients cs)"
  shows "\<exists>h1 p1. nettoyer_section_clients (h, p) = Inr (h1, p1)
           \<and> frame_de h1 (cleaned_data p1) ''clients'' = Some (Clients (nettoyer_clients cs))
           \<and> (\<forall>n. n \<noteq> ''clients'' \<longrightarrow> map_of (cleaned_data p1) n = map_of (cleaned_data p) n)"
proof -
  from frame_de_source [OF assms(1)] obtain a where
    a: "source h p ''clients'' = Inr a" "a < length h" "h ! a = Clients cs" by blast
  show ?thesis
    unfolding nettoyer_section_clients_def Let_def
    using a
    by (simp add: modifier_fin nth_append score_en_place_def frame_de_def map_of_dict_set)
qed

lemma section_logs_resultat:
  assumes "frame_de h (data_sources p) ''logs'' = Some (Logs ls)"
    and "nettoyer_logs parse ls = Inr ls'"
  shows "\<exists>h1 p1. nettoyer_section_logs parse (h, p) = Inr (h1, p1)
           \<and> frame_de h1 (cleaned_data p1) ''logs'' = Some (Logs ls')
           \<and> (\<forall>n. n \<noteq> ''logs'' \<longrightarrow> map_of (cleaned_data p1) n = map_of (cleaned_data p) n)"
proof -
  from frame_de_source [OF assms(1)] obtain a where
    a: "source h p ''logs'' = Inr a" "a < length h" "h ! a = Logs ls" by blast
  from assms(2) obtain ds where ds: "to_datetime parse (map timestamp ls) = Inr ds"
    and ls': "ls' = drop_duplicates (\<lambda>l. l) (affecter_timestamp ls ds)"
    unfolding nettoyer_logs_def by (auto split: sum.splits)
  show ?thesis
    unfolding nettoyer_section_logs_def Let_def
    using a ds ls'
    by (simp add: modifier_def nth_append timestamp_en_place_def doublons_stricts_en_place_def
        frame_de_def map_of_dict_set)
qed

lemma etat_final_Inr: "etat_final (Inr s) = s"
  by (simp add: etat_final_def)

text \<open>
  When the three sources are frames of their kind and no timestamp is rejected,
  \<^verbatim>\<open>nettoyer_donnees\<close> returns, and \<^verbatim>\<open>cleaned_data\<close> holds the tables that the three sections
  compute from the rows of the sources.
\<close>

lemma nettoyer_donnees_resultat:
  assumes t: "frame_de h (data_sources p) ''transactions'' = Some (Transactions ts)"
    and c: "frame_de h (data_sources p) ''clients'' = Some (Clients cs)"
    and l: "frame_de h (data_sources p) ''logs'' = Some (Logs ls)"
    and nt: "nettoyer_transactions parse ts = Inr ts'"
    and nl: "nettoyer_logs parse ls = Inr ls'"
  shows "\<exists>h' p'. nettoyer_donnees parse (h, p) = Inr (h', p')
           \<and> frame_de h' (cleaned_data p') ''transactions'' = Some (Transactions ts')
           \<and> frame_de h' (cleaned_data p') ''clients'' = Some (Clients (nettoyer_clients cs))
           \<and> frame_de h' (cleaned_data p') ''logs'' = Some (Logs ls')"
proof -
  from section_transactions_resultat [OF t nt] obtain h1 p1 where
    r1: "nettoyer_section_transactions parse (h, p) = Inr (h1, p1)"
    and f1: "frame_de h1 (cleaned_data p1) ''transactions'' = Some (Transactions ts')"
    by blast
  have i1: "sources_intactes (h, p) (h1, p1)"
    using section_transactions_intacte [of "(h, p)" parse] by (simp add: r1 etat_final_Inr)
  then have k1: "take (length h) h1 = h" and d1: "data_sources p1 = data_sources p"
    by (simp_all add: sources_intactes_def)
  have c1: "frame_de h1 (data_sources p1) ''clients'' = Some (Clients cs)"
    using c k1 by (rule frame_de_prolonge) (simp add: d1)
  have l1: "frame_de h1 (data_sources p1) ''logs'' = Some (Logs ls)"
    using l k1 by (rule frame_de_prolonge) (simp add: d1)
  from section_clients_resultat [OF c1] obtain h2 p2 where
    r2: "nettoyer_section_clients (h1, p1) = Inr (h2, p2)"
    and f2: "frame_de h2 (cleaned_data p2) ''clients'' = Some (Clients (nettoyer_clients cs))"
    and o2: "\<forall>n. n \<noteq> ''clients'' \<longrightarrow> map_of (cleaned_data p2) n = map_of (cleaned_data p1) n"
    by blast
  have i2: "sources_intactes (h1, p1) (h2, p2)"
    using section_clients_intacte [of "(h1, p1)"] by (simp add: r2 etat_final_Inr)
  then have k2: "take (length h1) h2 = h1" and d2: "data_sources p2 = data_sources p1"
    by (simp_all add: sources_intactes_def)
  have l2: "frame_de h2 (data_sources p2) ''logs'' = Some (Logs ls)"
    using l1 k2 by (rule frame_de_prolonge) (simp add: d2)
  have f1': "frame_de h2 (cleaned_data p2) ''transactions'' = Some (Transactions ts')"
    using f1 k2 by (rule frame_de_prolonge) (simp add: o2)
  from section_logs_resultat [OF l2 nl] obtain h3 p3 where
    r3: "nettoyer_section_logs parse (h2, p2) = Inr (h3, p3)"
    and f3: "frame_de h3 (cleaned_data p3) ''logs'' = Some (Logs ls')"
    and o3: "\<forall>n. n \<noteq> ''logs'' \<longrightarrow> map_of (cleaned_data p3) n = map_of (cleaned_data p2) n"
    by blast
  have i3: "sources_intactes (h2, p2) (h3, p3)"
    using section_logs_intacte [of "(h2, p2)" parse] by (simp add: r3 etat_final_Inr)
  then have k3: "take (length h2) h3 = h2"
    by (simp add: sources_intactes_def)
  have f1'': "frame_de h3 (cleaned_data p3) ''transactions'' = Some (Transactions ts')"
    using f1' k3 by (rule frame_de_prolonge) (simp add: o3)
  have f2': "frame_de h3 (cleaned_data p3) ''clients'' = Some (Clients (nettoyer_clients cs))"
    using f2 k3 by (rule frame_de_prolonge) (simp add: o3)
  have "nettoyer_donnees parse (h, p) = Inr (h3, p3)"
    by (simp add: nettoyer_donnees_def puis_def r1 r2 r3)
  with f1'' f2' f3 show ?thesis by blast
qed

end
